theory Spec2Isabelle
  imports Complex_Main "HOL-Library.AList"
begin

section \<open>Numbers, errors and Python primitives\<close>

text \<open>
  The calculator of \<^verbatim>\<open>src/investment_calculator.py\<close> works on Python numbers:
  amounts, prices, ratios and budgets are floats (or JSON integers promoted to floats by
  \<^verbatim>\<open>/\<close> and \<^verbatim>\<open>*\<close>), share counts are unbounded integers produced by \<^verbatim>\<open>round\<close>.
  Amounts are embedded as exact reals, share counts as \<open>int\<close>. Rounding error of the
  binary floating-point format, infinities and NaN are outside the embedding; every
  comparison, branch, guard and division of the source is kept.

  The only exception the modelled methods can raise on their own is Python's
  \<^verbatim>\<open>ZeroDivisionError\<close> (float and int division by zero both raise it).
\<close>

datatype error = ZeroDivisionError

definition py_round :: "real \<Rightarrow> int" where
  \<comment> \<open>Python 3 \<^verbatim>\<open>round(x)\<close> with one argument: nearest integer, ties to the even one.\<close>
  "py_round x =
     (let f = \<lfloor>x\<rfloor>; d = x - of_int f
      in if d < 1 / 2 then f
         else if 1 / 2 < d then f + 1
         else if even f then f else f + 1)"

definition py_min :: "real \<Rightarrow> real \<Rightarrow> real" where
  \<comment> \<open>\<^verbatim>\<open>min(a, b)\<close>: the first argument unless the second is strictly smaller.\<close>
  "py_min a b = (if b < a then b else a)"

definition py_max :: "'a::linorder \<Rightarrow> 'a \<Rightarrow> 'a" where
  \<comment> \<open>\<^verbatim>\<open>max(a, b)\<close>: the first argument unless the second is strictly greater.\<close>
  "py_max a b = (if a < b then b else a)"

section \<open>Configuration\<close>

text \<open>
  \<^verbatim>\<open>config['portfolio']\<close>, \<^verbatim>\<open>config['limits']\<close> and \<^verbatim>\<open>config['crash_detection']\<close>.
  The two allocation tables are dicts; they are association lists here, in the dict's
  iteration (insertion) order, because the loops of the source walk them with
  \<^verbatim>\<open>.items()\<close>.
\<close>

record portfolio_cfg =
  stock_weight :: real
  crypto_weight :: real
  stock_allocation :: "(string \<times> real) list"
  crypto_allocation :: "(string \<times> real) list"

record limits_cfg =
  weekly_usd_limit :: real
  weekly_tao_limit :: real

record crash_cfg =
  stock_lookback_days :: int
  crypto_lookback_days :: int
  level1_threshold :: real
  level1_multiplier :: real
  level2_threshold :: real
  level2_multiplier :: real
  level3_threshold :: real
  level3_multiplier :: real

record config =
  portfolio :: portfolio_cfg
  limits :: limits_cfg
  crash_config :: crash_cfg

section \<open>Equity allocation: \<^verbatim>\<open>_calculate_stock_allocation\<close>\<close>

text \<open>One value of the \<^verbatim>\<open>investments\<close> dict of \<^verbatim>\<open>_calculate_stock_allocation\<close>.\<close>

record stock_data =
  amount :: real
  ratio :: real
  price :: real
  shares :: int

type_synonym investments = "(string \<times> stock_data) list"

definition stock_entry :: "real \<Rightarrow> real \<Rightarrow> real \<Rightarrow> real \<Rightarrow> error + stock_data" where
  \<comment> \<open>Body of the first loop (source lines 75--87) for a symbol that has price \<open>p\<close>.\<close>
  "stock_entry budget total_allocation r p =
     (if total_allocation = 0 then Inl ZeroDivisionError
      else let target_amount = budget * (r / total_allocation)
           in if p = 0 then Inl ZeroDivisionError
              else let target_shares = target_amount / p;
                       n = py_max 1 (py_round target_shares);
                       actual_amount = of_int n * p
                   in Inr \<lparr>amount = actual_amount, ratio = r, price = p, shares = n\<rparr>)"

fun first_round ::
  "real \<Rightarrow> real \<Rightarrow> (string \<rightharpoonup> real) \<Rightarrow> (string \<times> real) list \<Rightarrow> investments
     \<Rightarrow> error + investments" where
  \<comment> \<open>The first loop (lines 72--87): symbols without a price are skipped by the guard
      \<^verbatim>\<open>if symbol in prices\<close>; \<^verbatim>\<open>investments[symbol] = ...\<close> is a dict assignment.\<close>
  "first_round budget total_allocation prices [] ivs = Inr ivs"
| "first_round budget total_allocation prices ((symbol, r) # rest) ivs =
     (case prices symbol of
        None \<Rightarrow> first_round budget total_allocation prices rest ivs
      | Some p \<Rightarrow>
          (case stock_entry budget total_allocation r p of
             Inl e \<Rightarrow> Inl e
           | Inr d \<Rightarrow>
               first_round budget total_allocation prices rest (AList.update symbol d ivs)))"

definition total_cost :: "investments \<Rightarrow> real" where
  \<comment> \<open>\<^verbatim>\<open>sum(data['amount'] for data in investments.values())\<close>\<close>
  "total_cost ivs = sum_list (map (\<lambda>(symbol, d). amount d) ivs)"

fun find_max_price :: "investments \<Rightarrow> string option \<times> real \<Rightarrow> string option \<times> real" where
  \<comment> \<open>The inner \<^verbatim>\<open>for\<close> of the correction loop (lines 98--101); the accumulator is
      \<^verbatim>\<open>(max_price_symbol, max_price)\<close>, started at \<^verbatim>\<open>(None, 0)\<close>.\<close>
  "find_max_price [] acc = acc"
| "find_max_price ((symbol, d) # rest) (max_price_symbol, max_price) =
     (if shares d > 1 \<and> price d > max_price
      then find_max_price rest (Some symbol, price d)
      else find_max_price rest (max_price_symbol, max_price))"

definition sell_one :: "stock_data \<Rightarrow> stock_data" where
  \<comment> \<open>Lines 104--108: \<^verbatim>\<open>shares -= 1\<close>, then \<^verbatim>\<open>amount = shares * price\<close>.\<close>
  "sell_one d = d\<lparr>shares := shares d - 1, amount := of_int (shares d - 1) * price d\<rparr>"

definition decrement :: "string \<Rightarrow> investments \<Rightarrow> investments" where
  \<comment> \<open>\<^verbatim>\<open>investments[max_price_symbol]\<close> is updated in place. The keys of a dict are
      distinct, so the entry under the key is the only one this touches.\<close>
  "decrement s ivs = map (\<lambda>(symbol, d). if symbol = s then (symbol, sell_one d) else (symbol, d)) ivs"

definition total_units :: "investments \<Rightarrow> nat" where
  "total_units ivs = sum_list (map (\<lambda>(symbol, d). nat (shares d)) ivs)"

lemma find_max_price_Some:
  "fst (find_max_price ivs acc) = Some s \<Longrightarrow>
     fst acc = Some s \<or> (\<exists>d. (s, d) \<in> set ivs \<and> 1 < shares d)"
proof (induction ivs acc rule: find_max_price.induct)
  case (1 acc)
  then show ?case by simp
next
  case (2 symbol d rest max_price_symbol max_price)
  then show ?case by (fastforce split: if_splits)
qed

lemma total_units_decrement_le: "total_units (decrement s ivs) \<le> total_units ivs"
  by (induction ivs) (auto simp: total_units_def decrement_def sell_one_def)

lemma total_units_decrement_less:
  "(s, d) \<in> set ivs \<Longrightarrow> 1 < shares d \<Longrightarrow> total_units (decrement s ivs) < total_units ivs"
proof (induction ivs)
  case Nil
  then show ?case by simp
next
  case (Cons e ivs)
  obtain symbol d' where e: "e = (symbol, d')" by (cases e)
  show ?case
  proof (cases "e = (s, d)")
    case True
    have "total_units (decrement s ivs) \<le> total_units ivs"
      by (rule total_units_decrement_le)
    moreover have "nat (shares d - 1) < nat (shares d)"
      using Cons.prems(2) by simp
    ultimately show ?thesis
      using True by (simp add: total_units_def decrement_def sell_one_def)
  next
    case False
    then have "(s, d) \<in> set ivs" using Cons.prems(1) by simp
    then have "total_units (decrement s ivs) < total_units ivs"
      using Cons.IH Cons.prems(2) by simp
    moreover have "nat (shares d' - 1) \<le> nat (shares d')" by simp
    ultimately show ?thesis
      using e by (simp add: total_units_def decrement_def sell_one_def)
  qed
qed

function correction_loop :: "real \<Rightarrow> investments \<Rightarrow> investments" where
  \<comment> \<open>The \<^verbatim>\<open>while total_cost > max_budget\<close> loop (lines 93--111). The test
      \<^verbatim>\<open>if max_price_symbol:\<close> is a truth test: \<^verbatim>\<open>None\<close> and the empty string both
      take the \<^verbatim>\<open>break\<close>.\<close>
  "correction_loop max_budget ivs =
     (if total_cost ivs > max_budget then
        (case fst (find_max_price ivs (None, 0)) of
           None \<Rightarrow> ivs
         | Some max_price_symbol \<Rightarrow>
             if max_price_symbol \<noteq> []
             then correction_loop max_budget (decrement max_price_symbol ivs)
             else ivs)
      else ivs)"
  by pat_completeness auto
termination
proof (relation "measure (\<lambda>(max_budget, ivs). total_units ivs)")
  show "wf (measure (\<lambda>(max_budget, ivs). total_units ivs))" by simp
next
  fix max_budget :: real and ivs :: investments and s :: string
  assume "fst (find_max_price ivs (None, 0)) = Some s"
  from find_max_price_Some [OF this]
  obtain d where "(s, d) \<in> set ivs" "1 < shares d" by auto
  then have "total_units (decrement s ivs) < total_units ivs"
    by (rule total_units_decrement_less)
  then show "((max_budget, decrement s ivs), (max_budget, ivs))
      \<in> measure (\<lambda>(max_budget, ivs). total_units ivs)"
    by simp
qed

definition loop_step :: "real \<Rightarrow> investments \<Rightarrow> investments option" where
  \<comment> \<open>One pass through the \<^verbatim>\<open>while\<close> loop: the state after the body, or \<open>None\<close> when
      the loop is left (condition false, or \<^verbatim>\<open>break\<close>).\<close>
  "loop_step max_budget ivs =
     (if total_cost ivs > max_budget then
        (case fst (find_max_price ivs (None, 0)) of
           None \<Rightarrow> None
         | Some max_price_symbol \<Rightarrow>
             if max_price_symbol \<noteq> [] then Some (decrement max_price_symbol ivs) else None)
      else None)"

fun run_loop :: "nat \<Rightarrow> real \<Rightarrow> investments \<Rightarrow> investments option" where
  \<comment> \<open>The loop counted by iterations: at most \<open>n\<close> passes through the body, \<open>None\<close> when
      the loop has not been left by then.\<close>
  "run_loop 0 max_budget ivs =
     (case loop_step max_budget ivs of None \<Rightarrow> Some ivs | Some ivs' \<Rightarrow> None)"
| "run_loop (Suc n) max_budget ivs =
     (case loop_step max_budget ivs of None \<Rightarrow> Some ivs | Some ivs' \<Rightarrow> run_loop n max_budget ivs')"

text \<open>
  What the first loop establishes and the correction loop keeps: the keys are those of a
  dict, and every line holds at least one share.
\<close>

definition well_formed :: "investments \<Rightarrow> bool" where
  "well_formed ivs \<longleftrightarrow> distinct (map fst ivs) \<and> (\<forall>(s, d) \<in> set ivs. 1 \<le> shares d)"

definition calculate_stock_allocation ::
  "config \<Rightarrow> real \<Rightarrow> (string \<rightharpoonup> real) \<Rightarrow> error + investments" where
  "calculate_stock_allocation cfg budget prices =
     (let allocations = stock_allocation (portfolio cfg);
          total_allocation = sum_list (map snd allocations);
          max_budget = budget * 1.5
      in case first_round budget total_allocation prices allocations [] of
           Inl e \<Rightarrow> Inl e
         | Inr ivs \<Rightarrow> Inr (correction_loop max_budget ivs))"


section \<open>Divisible-asset allocation: \<^verbatim>\<open>_calculate_crypto_allocation\<close>\<close>

record crypto_data =
  c_amount :: real
  c_ratio :: real
  c_price :: real
  quantity :: real

type_synonym crypto_investments = "(string \<times> crypto_data) list"

fun crypto_round ::
  "real \<Rightarrow> (string \<rightharpoonup> real) \<Rightarrow> (string \<times> real) list \<Rightarrow> crypto_investments
     \<Rightarrow> error + crypto_investments" where
  \<comment> \<open>The loop of lines 120--128; \<^verbatim>\<open>amount / prices[symbol]\<close> raises on a zero price.\<close>
  "crypto_round budget prices [] ivs = Inr ivs"
| "crypto_round budget prices ((symbol, r) # rest) ivs =
     (case prices symbol of
        None \<Rightarrow> crypto_round budget prices rest ivs
      | Some p \<Rightarrow>
          (let a = budget * r
           in if p = 0 then Inl ZeroDivisionError
              else crypto_round budget prices rest
                     (AList.update symbol
                        \<lparr>c_amount = a, c_ratio = r, c_price = p, quantity = a / p\<rparr> ivs)))"

definition calculate_crypto_allocation ::
  "config \<Rightarrow> real \<Rightarrow> (string \<rightharpoonup> real) \<Rightarrow> error + crypto_investments" where
  "calculate_crypto_allocation cfg budget prices =
     crypto_round budget prices (crypto_allocation (portfolio cfg)) []"

section \<open>The weekly plan: \<^verbatim>\<open>calculate_weekly_investment\<close>\<close>

record investment_plan =
  stock_total :: real
  crypto_total :: real
  crypto_tao_amount :: real
  stocks :: investments
  cryptos :: crypto_investments
  total_budget :: real

definition calculate_weekly_investment ::
  "config \<Rightarrow> (string \<rightharpoonup> real) \<Rightarrow> (string \<rightharpoonup> real) \<Rightarrow> real \<Rightarrow> error + investment_plan" where
  "calculate_weekly_investment cfg stock_prices crypto_prices tao_price =
     (let usd_limit = weekly_usd_limit (limits cfg);
          tao_limit = weekly_tao_limit (limits cfg)
      in case calculate_stock_allocation cfg usd_limit stock_prices of
           Inl e \<Rightarrow> Inl e
         | Inr stock_investments \<Rightarrow>
             (let actual_stock_cost = total_cost stock_investments;
                  sw = stock_weight (portfolio cfg);
                  cw = crypto_weight (portfolio cfg)
              in if sw = 0 then Inl ZeroDivisionError
                 else
                   (let target_crypto_budget = actual_stock_cost * (cw / sw);
                        tao_usd_value = tao_limit * tao_price;
                        actual_crypto_budget = py_min target_crypto_budget tao_usd_value
                    in case calculate_crypto_allocation cfg actual_crypto_budget crypto_prices of
                         Inl e \<Rightarrow> Inl e
                       | Inr crypto_investments \<Rightarrow>
                           if tao_price = 0 then Inl ZeroDivisionError
                           else Inr \<lparr>stock_total = actual_stock_cost,
                                     crypto_total = actual_crypto_budget,
                                     crypto_tao_amount = actual_crypto_budget / tao_price,
                                     stocks = stock_investments,
                                     cryptos = crypto_investments,
                                     total_budget = actual_stock_cost + actual_crypto_budget\<rparr>)))"

section \<open>Rebalancing: \<^verbatim>\<open>calculate_rebalancing_adjustment\<close>\<close>

definition dict_get :: "(string \<times> real) list \<Rightarrow> string \<Rightarrow> real \<Rightarrow> real" where
  \<comment> \<open>\<^verbatim>\<open>d.get(key, default)\<close>\<close>
  "dict_get d k dflt = (case map_of d k of None \<Rightarrow> dflt | Some v \<Rightarrow> v)"

fun deviation_round ::
  "(string \<times> real) list \<Rightarrow> real \<Rightarrow> real \<Rightarrow> (string \<times> real) list \<Rightarrow> (string \<times> real) list
     \<Rightarrow> error + (string \<times> real) list" where
  \<comment> \<open>The first loop (lines 149--164). The guard tests \<^verbatim>\<open>total_portfolio_value > 0\<close>,
      the division is by \<^verbatim>\<open>total_portfolio_value - weekly_budget\<close>.\<close>
  "deviation_round current_portfolio total_portfolio_value weekly_budget [] adjustments =
     Inr adjustments"
| "deviation_round current_portfolio total_portfolio_value weekly_budget
       ((symbol, target_ratio) # rest) adjustments =
     (let target_value = total_portfolio_value * target_ratio;
          current_value = dict_get current_portfolio symbol 0
      in if total_portfolio_value > 0 then
           (if total_portfolio_value - weekly_budget = 0 then Inl ZeroDivisionError
            else
              (let current_ratio = current_value / (total_portfolio_value - weekly_budget);
                   deviation = \<bar>current_ratio - target_ratio\<bar>
               in if deviation > 0.05 then
                    (let needed_adjustment = target_value - current_value;
                         max_adjustment = weekly_budget * 0.5;
                         adjustment = py_min max_adjustment (py_max 0 needed_adjustment)
                     in deviation_round current_portfolio total_portfolio_value weekly_budget
                          rest (AList.update symbol adjustment adjustments))
                  else deviation_round current_portfolio total_portfolio_value weekly_budget
                         rest adjustments))
         else deviation_round current_portfolio total_portfolio_value weekly_budget
                rest adjustments)"

fun add_base_amounts ::
  "real \<Rightarrow> (string \<times> real) list \<Rightarrow> (string \<times> real) list \<Rightarrow> (string \<times> real) list" where
  \<comment> \<open>Lines 173--175.\<close>
  "add_base_amounts remaining_budget [] adjustments = adjustments"
| "add_base_amounts remaining_budget ((symbol, target_ratio) # rest) adjustments =
     add_base_amounts remaining_budget rest
       (AList.update symbol (dict_get adjustments symbol 0 + remaining_budget * target_ratio)
          adjustments)"

fun plain_distribution ::
  "real \<Rightarrow> (string \<times> real) list \<Rightarrow> (string \<times> real) list \<Rightarrow> (string \<times> real) list" where
  \<comment> \<open>Lines 178--179.\<close>
  "plain_distribution weekly_budget [] adjustments = adjustments"
| "plain_distribution weekly_budget ((symbol, target_ratio) # rest) adjustments =
     plain_distribution weekly_budget rest
       (AList.update symbol (weekly_budget * target_ratio) adjustments)"

definition calculate_rebalancing_adjustment ::
  "(string \<times> real) list \<Rightarrow> (string \<times> real) list \<Rightarrow> real \<Rightarrow> error + (string \<times> real) list" where
  "calculate_rebalancing_adjustment current_portfolio target_allocation weekly_budget =
     (let total_portfolio_value = sum_list (map snd current_portfolio) + weekly_budget
      in case deviation_round current_portfolio total_portfolio_value weekly_budget
                target_allocation [] of
           Inl e \<Rightarrow> Inl e
         | Inr adjustments \<Rightarrow>
             if adjustments \<noteq> [] then
               (let total_adjustments = sum_list (map snd adjustments);
                    remaining_budget = weekly_budget - total_adjustments
                in if remaining_budget > 0
                   then Inr (add_base_amounts remaining_budget target_allocation adjustments)
                   else Inr adjustments)
             else Inr (plain_distribution weekly_budget target_allocation adjustments))"

section \<open>Crash detection: \<^verbatim>\<open>detect_crash_opportunities\<close>\<close>

text \<open>
  The history manager is a collaborator: \<^verbatim>\<open>history_manager.get_average_cost(symbol)\<close>
  either raises or returns an optional average cost.
\<close>

datatype history_result = Raises | Returns "real option"

definition get_average_price ::
  "string \<Rightarrow> real \<Rightarrow> (string \<Rightarrow> history_result) \<Rightarrow> int \<Rightarrow> real option" where
  \<comment> \<open>Lines 233--251: \<^verbatim>\<open>except Exception\<close> prints and returns \<^verbatim>\<open>None\<close>;
      \<^verbatim>\<open>if avg_cost and avg_cost > 0\<close> is false for \<^verbatim>\<open>None\<close>, for 0 and for negatives.\<close>
  "get_average_price symbol cur history_manager days =
     (case history_manager symbol of
        Raises \<Rightarrow> None
      | Returns avg_cost \<Rightarrow>
          (case avg_cost of
             None \<Rightarrow> Some (cur * 1.15)
           | Some c \<Rightarrow> if c \<noteq> 0 \<and> c > 0 then Some c else Some (cur * 1.15)))"

definition determine_crash_level :: "config \<Rightarrow> real \<Rightarrow> int \<times> real" where
  "determine_crash_level cfg drop_pc =
     (if drop_pc \<ge> level3_threshold (crash_config cfg) then (3, level3_multiplier (crash_config cfg))
      else if drop_pc \<ge> level2_threshold (crash_config cfg) then (2, level2_multiplier (crash_config cfg))
      else if drop_pc \<ge> level1_threshold (crash_config cfg) then (1, level1_multiplier (crash_config cfg))
      else (0, 1.0))"

definition get_base_allocation :: "config \<Rightarrow> string \<Rightarrow> real" where
  "get_base_allocation cfg symbol =
     (case map_of (stock_allocation (portfolio cfg)) symbol of
        Some r \<Rightarrow> r * stock_weight (portfolio cfg)
      | None \<Rightarrow>
          (case map_of (crypto_allocation (portfolio cfg)) symbol of
             Some r \<Rightarrow> r * crypto_weight (portfolio cfg)
           | None \<Rightarrow> 0.0))"

definition get_weekly_budget :: "config \<Rightarrow> string \<Rightarrow> real" where
  \<comment> \<open>Lines 274--281; the method has no conversion-price parameter.\<close>
  "get_weekly_budget cfg symbol =
     (if symbol \<in> set [''QQQ'', ''VOO'', ''GLDM'']
      then weekly_usd_limit (limits cfg)
      else weekly_tao_limit (limits cfg) * 500)"

record opportunity =
  current_price :: real
  avg_price :: real
  drop_percent :: real
  crash_level :: int
  multiplier :: real
  base_amount :: real
  suggested_amount :: real

definition crash_entry ::
  "config \<Rightarrow> (string \<Rightarrow> history_result) \<Rightarrow> string \<Rightarrow> real \<Rightarrow> opportunity option" where
  \<comment> \<open>Body of the loop (lines 198--229) for one symbol: \<open>None\<close> when nothing is stored.\<close>
  "crash_entry cfg history_manager symbol cur =
     (let lookback_days =
            (if symbol \<in> set [''QQQ'', ''VOO'', ''GLDM'']
             then stock_lookback_days (crash_config cfg)
             else crypto_lookback_days (crash_config cfg))
      in case get_average_price symbol cur history_manager lookback_days of
           None \<Rightarrow> None
         | Some avg \<Rightarrow>
             if avg \<noteq> 0 \<and> avg > 0 then
               (let drop_pc = (avg - cur) / avg;
                    (level, mult) = determine_crash_level cfg drop_pc
                in if level > 0 then
                     (let base_allocation = get_base_allocation cfg symbol;
                          weekly_budget = get_weekly_budget cfg symbol;
                          base = weekly_budget * base_allocation
                      in Some \<lparr>current_price = cur, avg_price = avg,
                                 drop_percent = drop_pc * 100, crash_level = level,
                                 multiplier = mult, base_amount = base,
                                 suggested_amount = base * mult\<rparr>)
                   else None)
             else None)"

fun detect_loop ::
  "config \<Rightarrow> (string \<Rightarrow> history_result) \<Rightarrow> (string \<times> real) list
     \<Rightarrow> (string \<times> opportunity) list \<Rightarrow> (string \<times> opportunity) list" where
  "detect_loop cfg history_manager [] opportunities = opportunities"
| "detect_loop cfg history_manager ((symbol, cur) # rest) opportunities =
     (case crash_entry cfg history_manager symbol cur of
        None \<Rightarrow> detect_loop cfg history_manager rest opportunities
      | Some opp \<Rightarrow>
          detect_loop cfg history_manager rest (AList.update symbol opp opportunities))"

definition detect_crash_opportunities ::
  "config \<Rightarrow> (string \<times> real) list \<Rightarrow> (string \<Rightarrow> history_result)
     \<Rightarrow> (string \<times> opportunity) list" where
  "detect_crash_opportunities cfg current_prices history_manager =
     detect_loop cfg history_manager current_prices []"

section \<open>An example configuration\<close>

text \<open>
  The worked example: weights 0.6/0.4, a weekly limit of 2000 USD, equities QQQ/VOO/GLDM
  at 0.5/0.3/0.2, crash thresholds 0.10/0.20/0.30 with multipliers 1.5/2.0/3.0, and the
  prices of the module's self-test (\<^verbatim>\<open>if __name__ == '__main__'\<close>). The file
  \<^verbatim>\<open>config.json\<close> is not part of the sources: the crypto table, the TAO limit and the
  lookback days are sample values.
\<close>

definition example_cfg :: config where
  "example_cfg =
     \<lparr>portfolio = \<lparr>stock_weight = 0.6, crypto_weight = 0.4,
        stock_allocation = [(''QQQ'', 0.5), (''VOO'', 0.3), (''GLDM'', 0.2)],
        crypto_allocation = [(''BTC'', 0.4), (''ETH'', 0.3), (''BNB'', 0.15), (''SOL'', 0.15)]\<rparr>,
      limits = \<lparr>weekly_usd_limit = 2000, weekly_tao_limit = 2\<rparr>,
      crash_config = \<lparr>stock_lookback_days = 30, crypto_lookback_days = 7,
        level1_threshold = 0.10, level1_multiplier = 1.5,
        level2_threshold = 0.20, level2_multiplier = 2.0,
        level3_threshold = 0.30, level3_multiplier = 3.0\<rparr>\<rparr>"

definition example_stock_prices :: "string \<rightharpoonup> real" where
  "example_stock_prices = [''QQQ'' \<mapsto> 350, ''VOO'' \<mapsto> 420, ''GLDM'' \<mapsto> 36]"

definition example_crypto_prices :: "string \<rightharpoonup> real" where
  "example_crypto_prices =
     [''BTC'' \<mapsto> 45000, ''BNB'' \<mapsto> 280, ''SOL'' \<mapsto> 98, ''ETH'' \<mapsto> 2800]"

definition example_plan :: investment_plan where
  \<comment> \<open>The plan for the example at a TAO price of 700 USD.\<close>
  "example_plan =
     \<lparr>stock_total = 1866, crypto_total = 1244, crypto_tao_amount = 311 / 175,
      stocks =
        [(''QQQ'', \<lparr>amount = 1050, ratio = 1 / 2, price = 350, shares = 3\<rparr>),
         (''VOO'', \<lparr>amount = 420, ratio = 3 / 10, price = 420, shares = 1\<rparr>),
         (''GLDM'', \<lparr>amount = 396, ratio = 1 / 5, price = 36, shares = 11\<rparr>)],
      cryptos =
        [(''BTC'', \<lparr>c_amount = 2488 / 5, c_ratio = 2 / 5, c_price = 45000,
                    quantity = 311 / 28125\<rparr>),
         (''ETH'', \<lparr>c_amount = 1866 / 5, c_ratio = 3 / 10, c_price = 2800,
                    quantity = 933 / 7000\<rparr>),
         (''BNB'', \<lparr>c_amount = 933 / 5, c_ratio = 3 / 20, c_price = 280,
                    quantity = 933 / 1400\<rparr>),
         (''SOL'', \<lparr>c_amount = 933 / 5, c_ratio = 3 / 20, c_price = 98,
                    quantity = 933 / 490\<rparr>)],
      total_budget = 3110\<rparr>"

text \<open>
  Further inputs: the example configuration with another equity table, a snapshot in
  which every equity costs more than its target amount, and a two-symbol table on which
  the correction loop runs.
\<close>

definition cfg_with_stocks :: "(string \<times> real) list \<Rightarrow> config" where
  "cfg_with_stocks al = example_cfg\<lparr>portfolio := (portfolio example_cfg)\<lparr>stock_allocation := al\<rparr>\<rparr>"

definition expensive_prices :: "string \<rightharpoonup> real" where
  "expensive_prices = [''QQQ'' \<mapsto> 2500, ''VOO'' \<mapsto> 2000, ''GLDM'' \<mapsto> 1500]"

definition expensive_lines :: investments where
  "expensive_lines =
     [(''QQQ'', \<lparr>amount = 2500, ratio = 1 / 2, price = 2500, shares = 1\<rparr>),
      (''VOO'', \<lparr>amount = 2000, ratio = 3 / 10, price = 2000, shares = 1\<rparr>),
      (''GLDM'', \<lparr>amount = 1500, ratio = 1 / 5, price = 1500, shares = 1\<rparr>)]"

definition two_stock_cfg :: config where
  "two_stock_cfg = cfg_with_stocks [(''A'', 0.5), (''B'', 0.5)]"

definition two_stock_prices :: "string \<rightharpoonup> real" where
  "two_stock_prices = [''A'' \<mapsto> 30, ''B'' \<mapsto> 400]"

definition two_stock_lines :: investments where
  "two_stock_lines =
     [(''A'', \<lparr>amount = 30, ratio = 1 / 2, price = 30, shares = 1\<rparr>),
      (''B'', \<lparr>amount = 400, ratio = 1 / 2, price = 400, shares = 1\<rparr>)]"

definition partial_stock_prices :: "string \<rightharpoonup> real" where
  \<comment> \<open>The example snapshot without a price for VOO.\<close>
  "partial_stock_prices = [''QQQ'' \<mapsto> 350, ''GLDM'' \<mapsto> 36]"

definition partial_plan :: investment_plan where
  "partial_plan =
     \<lparr>stock_total = 1446, crypto_total = 964, crypto_tao_amount = 241 / 175,
      stocks =
        [(''QQQ'', \<lparr>amount = 1050, ratio = 1 / 2, price = 350, shares = 3\<rparr>),
         (''GLDM'', \<lparr>amount = 396, ratio = 1 / 5, price = 36, shares = 11\<rparr>)],
      cryptos =
        [(''BTC'', \<lparr>c_amount = 1928 / 5, c_ratio = 2 / 5, c_price = 45000,
                    quantity = 241 / 28125\<rparr>),
         (''ETH'', \<lparr>c_amount = 1446 / 5, c_ratio = 3 / 10, c_price = 2800,
                    quantity = 723 / 7000\<rparr>),
         (''BNB'', \<lparr>c_amount = 723 / 5, c_ratio = 3 / 20, c_price = 280,
                    quantity = 723 / 1400\<rparr>),
         (''SOL'', \<lparr>c_amount = 723 / 5, c_ratio = 3 / 20, c_price = 98,
                    quantity = 723 / 490\<rparr>)],
      total_budget = 2410\<rparr>"

definition spec_ratio_sum :: "(string \<times> real) list \<Rightarrow> (string \<rightharpoonup> real) \<Rightarrow> real" where
  \<comment> \<open>The normalising denominator as the specification words it: the sum of the ratios of
      the symbols present in the price map. The source's denominator is
      \<^verbatim>\<open>sum(allocations.values())\<close>, in \<open>calculate_stock_allocation\<close>.\<close>
  "spec_ratio_sum allocations prices =
     sum_list (map snd (filter (\<lambda>(s, r). prices s \<noteq> None) allocations))"

definition no_history :: "string \<Rightarrow> history_result" where
  \<comment> \<open>A history manager without any recorded purchase.\<close>
  "no_history s = Returns None"

definition failing_history :: "string \<Rightarrow> history_result" where
  \<comment> \<open>A history manager whose lookup raises.\<close>
  "failing_history s = Raises"

definition btc_opportunity :: opportunity where
  "btc_opportunity =
     \<lparr>current_price = 45000, avg_price = 51750, drop_percent = 300 / 23, crash_level = 1,
      multiplier = 3 / 2, base_amount = 160, suggested_amount = 240\<rparr>"

definition two_stock_first_round :: investments where
  \<comment> \<open>The two-symbol table after the first loop, at a budget of 100.\<close>
  "two_stock_first_round =
     [(''A'', \<lparr>amount = 60, ratio = 1 / 2, price = 30, shares = 2\<rparr>),
      (''B'', \<lparr>amount = 400, ratio = 1 / 2, price = 400, shares = 1\<rparr>)]"

definition one_priced :: "string \<rightharpoonup> real" where
  \<comment> \<open>A snapshot for the two-symbol table with a price for A only.\<close>
  "one_priced = [''A'' \<mapsto> 100]"

definition one_priced_lines :: investments where
  "one_priced_lines = [(''A'', \<lparr>amount = 500, ratio = 1 / 2, price = 100, shares = 5\<rparr>)]"

lemmas example_defs = example_cfg_def example_stock_prices_def example_crypto_prices_def

lemmas eval_defs = calculate_weekly_investment_def calculate_stock_allocation_def
  calculate_crypto_allocation_def stock_entry_def py_round_def py_max_def py_min_def
  total_cost_def decrement_def sell_one_def Let_def

lemma example_plan_computed:
  "calculate_weekly_investment example_cfg example_stock_prices example_crypto_prices 700 =
     Inr example_plan"
  by (simp add: eval_defs example_defs example_plan_def)

lemma example_stocks_computed:
  "calculate_stock_allocation example_cfg 2000 example_stock_prices = Inr (stocks example_plan)"
  by (simp add: eval_defs example_defs example_plan_def)

lemma expensive_lines_computed:
  "calculate_stock_allocation example_cfg 2000 expensive_prices = Inr expensive_lines"
  by (simp add: eval_defs example_defs expensive_prices_def expensive_lines_def)

lemma two_stock_lines_computed:
  "calculate_stock_allocation two_stock_cfg 100 two_stock_prices = Inr two_stock_lines"
  by (simp add: eval_defs example_defs cfg_with_stocks_def two_stock_cfg_def
      two_stock_prices_def two_stock_lines_def)

section \<open>Properties of the two loops of the equity allocation\<close>

lemma set_update_cases:
  "(s, d) \<in> set (AList.update k v al) \<Longrightarrow> (s, d) = (k, v) \<or> (s, d) \<in> set al"
  by (induction al) (auto split: if_splits)

lemma stock_entry_Inr:
  assumes "stock_entry b t r p = Inr d"
  shows "t \<noteq> 0" and "p \<noteq> 0" and "price d = p" and "ratio d = r"
    and "shares d = py_max 1 (py_round (b * (r / t) / p))"
    and "amount d = of_int (shares d) * p" and "1 \<le> shares d"
  using assms by (auto simp: stock_entry_def Let_def py_max_def split: if_splits)

lemma first_round_lines:
  assumes "first_round b t prices al ivs = Inr out"
    and "\<forall>(s, d) \<in> set ivs. P s d"
    and "\<And>s r p d. (s, r) \<in> set al \<Longrightarrow> prices s = Some p \<Longrightarrow> stock_entry b t r p = Inr d \<Longrightarrow> P s d"
  shows "\<forall>(s, d) \<in> set out. P s d"
  using assms
proof (induction al arbitrary: ivs)
  case Nil
  then show ?case by simp
next
  case (Cons a al)
  obtain symbol r where a: "a = (symbol, r)" by (cases a)
  have step: "P s d" if "(s, r) \<in> set al" "prices s = Some p" "stock_entry b t r p = Inr d"
    for s r p d
    using Cons.prems(3) [of s r p d] that by simp
  show ?case
  proof (cases "prices symbol")
    case None
    with Cons.prems a have "first_round b t prices al ivs = Inr out" by simp
    then show ?thesis using Cons.prems(2) step by (rule Cons.IH)
  next
    case (Some p)
    with Cons.prems(1) a obtain d where d: "stock_entry b t r p = Inr d"
      and rest: "first_round b t prices al (AList.update symbol d ivs) = Inr out"
      by (auto split: sum.splits)
    have "P symbol d" using Cons.prems(3) [of symbol r p d] a Some d by simp
    then have "\<forall>(s, d) \<in> set (AList.update symbol d ivs). P s d"
      using Cons.prems(2) by (auto dest: set_update_cases)
    with rest show ?thesis using step by (rule Cons.IH)
  qed
qed

lemma first_round_distinct:
  "first_round b t prices al ivs = Inr out \<Longrightarrow> distinct (map fst ivs) \<Longrightarrow> distinct (map fst out)"
proof (induction al arbitrary: ivs)
  case Nil
  then show ?case by simp
next
  case (Cons a al)
  obtain symbol r where a: "a = (symbol, r)" by (cases a)
  from Cons.prems a show ?case
    by (auto split: option.splits sum.splits intro!: Cons.IH AList.distinct_update)
qed

lemma first_round_keys:
  "first_round b t prices al ivs = Inr out \<Longrightarrow>
     fst ` set out = fst ` set ivs \<union> {s \<in> fst ` set al. prices s \<noteq> None}"
proof (induction al arbitrary: ivs)
  case Nil
  then show ?case by simp
next
  case (Cons a al)
  obtain symbol r where a: "a = (symbol, r)" by (cases a)
  show ?case
  proof (cases "prices symbol")
    case None
    with Cons.prems a have "first_round b t prices al ivs = Inr out" by simp
    from Cons.IH [OF this] show ?thesis using a None by auto
  next
    case (Some p)
    with Cons.prems(1) a obtain d where
      rest: "first_round b t prices al (AList.update symbol d ivs) = Inr out"
      by (auto split: sum.splits)
    from Cons.IH [OF rest] show ?thesis using a Some by (auto simp: AList.dom_update)
  qed
qed

lemma first_round_returns:
  "t \<noteq> 0 \<Longrightarrow> \<forall>(s, r) \<in> set al. prices s \<noteq> Some 0 \<Longrightarrow>
     \<exists>out. first_round b t prices al ivs = Inr out"
proof (induction al arbitrary: ivs)
  case Nil
  then show ?case by simp
next
  case (Cons a al)
  obtain symbol r where a: "a = (symbol, r)" by (cases a)
  show ?case
  proof (cases "prices symbol")
    case None
    then show ?thesis using Cons a by simp
  next
    case (Some p)
    with Cons.prems a have "p \<noteq> 0" by auto
    then obtain d where "stock_entry b t r p = Inr d"
      using Cons.prems(1) by (simp add: stock_entry_def Let_def)
    then show ?thesis using Cons a Some by simp
  qed
qed

lemma decrement_keys: "map fst (decrement s ivs) = map fst ivs"
  by (induction ivs) (auto simp: decrement_def)

lemma decrement_entry:
  "(s', d') \<in> set (decrement s ivs) \<Longrightarrow>
     (s' \<noteq> s \<and> (s', d') \<in> set ivs) \<or> (s' = s \<and> (\<exists>d. (s, d) \<in> set ivs \<and> d' = sell_one d))"
  by (induction ivs) (auto simp: decrement_def split: if_splits)

lemma well_formed_decrement:
  assumes wf: "well_formed ivs" and mem: "(s, d) \<in> set ivs" and gt: "1 < shares d"
  shows "well_formed (decrement s ivs)"
proof -
  have dist: "distinct (map fst ivs)" using wf by (simp add: well_formed_def)
  have "1 \<le> shares d'" if "(s', d') \<in> set (decrement s ivs)" for s' d'
  proof -
    from decrement_entry [OF that] show ?thesis
    proof
      assume "s' \<noteq> s \<and> (s', d') \<in> set ivs"
      then show ?thesis using wf by (auto simp: well_formed_def)
    next
      assume "s' = s \<and> (\<exists>d. (s, d) \<in> set ivs \<and> d' = sell_one d)"
      then obtain d0 where d0: "(s, d0) \<in> set ivs" "d' = sell_one d0" by auto
      have "d0 = d" using dist d0(1) mem by (rule eq_key_imp_eq_value)
      then show ?thesis using d0(2) gt by (simp add: sell_one_def)
    qed
  qed
  then show ?thesis using dist by (auto simp: well_formed_def decrement_keys)
qed

lemma well_formed_correction_loop:
  "well_formed ivs \<Longrightarrow> well_formed (correction_loop max_budget ivs)"
proof (induction max_budget ivs rule: correction_loop.induct)
  case (1 max_budget ivs)
  show ?case
  proof (cases "total_cost ivs > max_budget")
    case False
    then show ?thesis using "1.prems" by simp
  next
    case True
    show ?thesis
    proof (cases "fst (find_max_price ivs (None, 0))")
      case None
      then show ?thesis using True "1.prems" by simp
    next
      case (Some s)
      show ?thesis
      proof (cases "s = []")
        case True
        then show ?thesis using Some \<open>total_cost ivs > max_budget\<close> "1.prems" by simp
      next
        case False
        from find_max_price_Some [OF Some]
        obtain d where "(s, d) \<in> set ivs" "1 < shares d" by auto
        with "1.prems" have "well_formed (decrement s ivs)" by (rule well_formed_decrement)
        with "1.IH" [OF True Some False]
        have "well_formed (correction_loop max_budget (decrement s ivs))" .
        then show ?thesis using True Some False by simp
      qed
    qed
  qed
qed

lemma correction_loop_keys: "map fst (correction_loop max_budget ivs) = map fst ivs"
proof (induction max_budget ivs rule: correction_loop.induct)
  case (1 max_budget ivs)
  show ?case
  proof (cases "total_cost ivs > max_budget")
    case False
    then show ?thesis by simp
  next
    case True
    show ?thesis
    proof (cases "fst (find_max_price ivs (None, 0))")
      case None
      then show ?thesis using True by simp
    next
      case (Some s)
      show ?thesis
      proof (cases "s = []")
        case True
        then show ?thesis using Some \<open>total_cost ivs > max_budget\<close> by simp
      next
        case False
        from "1.IH" [OF True Some False] show ?thesis
          using True Some False by (simp add: decrement_keys)
      qed
    qed
  qed
qed

lemma correction_loop_prices:
  "\<forall>(s, d) \<in> set ivs. Q (price d) \<Longrightarrow> \<forall>(s, d) \<in> set (correction_loop max_budget ivs). Q (price d)"
proof (induction max_budget ivs rule: correction_loop.induct)
  case (1 max_budget ivs)
  show ?case
  proof (cases "total_cost ivs > max_budget")
    case False
    then show ?thesis using "1.prems" by simp
  next
    case True
    show ?thesis
    proof (cases "fst (find_max_price ivs (None, 0))")
      case None
      then show ?thesis using True "1.prems" by simp
    next
      case (Some s)
      show ?thesis
      proof (cases "s = []")
        case True
        then show ?thesis using Some \<open>total_cost ivs > max_budget\<close> "1.prems" by simp
      next
        case False
        have "\<forall>(s', d') \<in> set (decrement s ivs). Q (price d')"
          using "1.prems" by (auto dest!: decrement_entry simp: sell_one_def)
        with "1.IH" [OF True Some False]
        have "\<forall>(s', d') \<in> set (correction_loop max_budget (decrement s ivs)). Q (price d')" .
        then show ?thesis using True Some False by simp
      qed
    qed
  qed
qed

lemma find_max_price_keeps_Some:
  "fst acc \<noteq> None \<Longrightarrow> fst (find_max_price ivs acc) \<noteq> None"
  by (induction ivs acc rule: find_max_price.induct) auto

lemma find_max_price_None:
  "fst (find_max_price ivs (None, m)) = None \<Longrightarrow>
     \<forall>(s, d) \<in> set ivs. \<not> (1 < shares d \<and> m < price d)"
proof (induction ivs)
  case Nil
  then show ?case by simp
next
  case (Cons a ivs)
  obtain symbol d where a: "a = (symbol, d)" by (cases a)
  show ?case
  proof (cases "1 < shares d \<and> m < price d")
    case True
    then have "fst (find_max_price (a # ivs) (None, m)) \<noteq> None"
      using a find_max_price_keeps_Some [of "(Some symbol, price d)" ivs] by simp
    with Cons.prems show ?thesis by simp
  next
    case False
    then have "fst (find_max_price ivs (None, m)) = None" using Cons.prems a by auto
    from Cons.IH [OF this] show ?thesis using a False by auto
  qed
qed

lemma find_max_price_highest:
  "find_max_price ivs (ms, m) = (r, m') \<Longrightarrow>
     m \<le> m' \<and> (\<forall>(s, d) \<in> set ivs. 1 < shares d \<longrightarrow> price d \<le> m')"
proof (induction ivs arbitrary: ms m)
  case Nil
  then show ?case by simp
next
  case (Cons a ivs)
  obtain symbol d where a: "a = (symbol, d)" by (cases a)
  show ?case
  proof (cases "1 < shares d \<and> m < price d")
    case True
    then have "find_max_price ivs (Some symbol, price d) = (r, m')"
      using Cons.prems a by simp
    from Cons.IH [OF this] show ?thesis using a True by auto
  next
    case False
    then have "find_max_price ivs (ms, m) = (r, m')"
      using Cons.prems a by auto
    from Cons.IH [OF this] show ?thesis using a False by auto
  qed
qed

lemma find_max_price_selected:
  "find_max_price ivs (ms, m) = (Some s, m') \<Longrightarrow>
     (ms = Some s \<and> m' = m) \<or> (\<exists>d. (s, d) \<in> set ivs \<and> 1 < shares d \<and> price d = m' \<and> m < m')"
proof (induction ivs arbitrary: ms m)
  case Nil
  then show ?case by simp
next
  case (Cons a ivs)
  obtain symbol d where a: "a = (symbol, d)" by (cases a)
  show ?case
  proof (cases "1 < shares d \<and> m < price d")
    case True
    then have "find_max_price ivs (Some symbol, price d) = (Some s, m')"
      using Cons.prems a by simp
    from Cons.IH [OF this] show ?thesis using a True by auto
  next
    case False
    then have "find_max_price ivs (ms, m) = (Some s, m')"
      using Cons.prems a by auto
    from Cons.IH [OF this] show ?thesis using a False by auto
  qed
qed

lemma selected_is_highest_priced:
  assumes "fst (find_max_price ivs (None, 0)) = Some s"
  shows "\<exists>d. (s, d) \<in> set ivs \<and> 1 < shares d \<and> 0 < price d
           \<and> (\<forall>(s', d') \<in> set ivs. 1 < shares d' \<longrightarrow> price d' \<le> price d)"
proof -
  obtain m' where r: "find_max_price ivs (None, 0) = (Some s, m')"
    using assms by (cases "find_max_price ivs (None, 0)") simp
  from find_max_price_selected [OF r] obtain d where
    d: "(s, d) \<in> set ivs" "1 < shares d" "price d = m'" "0 < m'" by auto
  from find_max_price_highest [OF r]
  have "\<forall>(s', d') \<in> set ivs. 1 < shares d' \<longrightarrow> price d' \<le> m'" by simp
  with d show ?thesis by auto
qed

lemma correction_loop_exit:
  "total_cost (correction_loop max_budget ivs) \<le> max_budget
   \<or> fst (find_max_price (correction_loop max_budget ivs) (None, 0)) = None
   \<or> fst (find_max_price (correction_loop max_budget ivs) (None, 0)) = Some []"
proof (induction max_budget ivs rule: correction_loop.induct)
  case (1 max_budget ivs)
  show ?case
  proof (cases "total_cost ivs > max_budget")
    case False
    then show ?thesis by simp
  next
    case True
    show ?thesis
    proof (cases "fst (find_max_price ivs (None, 0))")
      case None
      then show ?thesis using True by simp
    next
      case (Some s)
      show ?thesis
      proof (cases "s = []")
        case True
        then show ?thesis using Some \<open>total_cost ivs > max_budget\<close> by simp
      next
        case False
        from "1.IH" [OF True Some False] show ?thesis
          using True Some False by simp
      qed
    qed
  qed
qed

lemma stock_allocation_well_formed:
  assumes "calculate_stock_allocation cfg budget prices = Inr out"
  shows "well_formed out"
proof -
  let ?al = "stock_allocation (portfolio cfg)"
  from assms obtain ivs where
    fr: "first_round budget (sum_list (map snd ?al)) prices ?al [] = Inr ivs"
    and out: "out = correction_loop (budget * 1.5) ivs"
    by (auto simp: calculate_stock_allocation_def Let_def split: sum.splits)
  have "distinct (map fst ivs)" using fr by (rule first_round_distinct) simp
  moreover have "\<forall>(s, d) \<in> set ivs. 1 \<le> shares d"
    using fr by (rule first_round_lines) (auto dest: stock_entry_Inr(7))
  ultimately have "well_formed ivs" by (simp add: well_formed_def)
  then show ?thesis unfolding out by (rule well_formed_correction_loop)
qed

lemma single_units_at_exit:
  assumes wf: "well_formed out"
    and pos: "\<forall>(s, d) \<in> set out. 0 < price d"
    and names: "[] \<notin> fst ` set out"
    and stop: "fst (find_max_price out (None, 0)) = None \<or> fst (find_max_price out (None, 0)) = Some []"
  shows "\<forall>(s, d) \<in> set out. shares d = 1"
proof -
  have "fst (find_max_price out (None, 0)) \<noteq> Some []"
  proof
    assume "fst (find_max_price out (None, 0)) = Some []"
    from find_max_price_Some [OF this] have "[] \<in> fst ` set out" by force
    with names show False by simp
  qed
  with stop have "fst (find_max_price out (None, 0)) = None" by simp
  from find_max_price_None [OF this] have "\<forall>(s, d) \<in> set out. \<not> (1 < shares d \<and> 0 < price d)" .
  with pos wf show ?thesis by (fastforce simp: well_formed_def)
qed

lemma crypto_round_keys:
  "crypto_round budget prices al ivs = Inr out \<Longrightarrow>
     fst ` set out = fst ` set ivs \<union> {s \<in> fst ` set al. prices s \<noteq> None}"
proof (induction al arbitrary: ivs)
  case Nil
  then show ?case by simp
next
  case (Cons a al)
  obtain symbol r where a: "a = (symbol, r)" by (cases a)
  show ?case
  proof (cases "prices symbol")
    case None
    with Cons.prems a have "crypto_round budget prices al ivs = Inr out" by simp
    from Cons.IH [OF this] show ?thesis using a None by auto
  next
    case (Some p)
    with Cons.prems(1) a obtain d where
      rest: "crypto_round budget prices al (AList.update symbol d ivs) = Inr out"
      by (auto simp: Let_def split: if_splits)
    from Cons.IH [OF rest] show ?thesis using a Some by (auto simp: AList.dom_update)
  qed
qed

lemma crypto_round_returns:
  "\<forall>(s, r) \<in> set al. prices s \<noteq> Some 0 \<Longrightarrow> \<exists>out. crypto_round budget prices al ivs = Inr out"
proof (induction al arbitrary: ivs)
  case Nil
  then show ?case by simp
next
  case (Cons a al)
  obtain symbol r where a: "a = (symbol, r)" by (cases a)
  show ?case
  proof (cases "prices symbol")
    case None
    then show ?thesis using Cons a by simp
  next
    case (Some p)
    with Cons.prems a have "p \<noteq> 0" by auto
    then show ?thesis using Cons a Some by (simp add: Let_def)
  qed
qed

lemma stock_allocation_keys:
  assumes "calculate_stock_allocation cfg budget prices = Inr out"
  shows "fst ` set out = {s \<in> fst ` set (stock_allocation (portfolio cfg)). prices s \<noteq> None}"
proof -
  let ?al = "stock_allocation (portfolio cfg)"
  from assms obtain ivs where
    fr: "first_round budget (sum_list (map snd ?al)) prices ?al [] = Inr ivs"
    and out: "out = correction_loop (budget * 1.5) ivs"
    by (auto simp: calculate_stock_allocation_def Let_def split: sum.splits)
  have "set (map fst out) = set (map fst ivs)"
    unfolding out by (simp only: correction_loop_keys)
  then show ?thesis using first_round_keys [OF fr] by simp
qed

lemma stock_allocation_returns:
  assumes "sum_list (map snd (stock_allocation (portfolio cfg))) \<noteq> 0"
    and "\<forall>(s, r) \<in> set (stock_allocation (portfolio cfg)). prices s \<noteq> Some 0"
  shows "\<exists>out. calculate_stock_allocation cfg budget prices = Inr out"
proof -
  from first_round_returns [OF assms]
  obtain ivs where "first_round budget (sum_list (map snd (stock_allocation (portfolio cfg))))
      prices (stock_allocation (portfolio cfg)) [] = Inr ivs" by blast
  then show ?thesis by (simp add: calculate_stock_allocation_def Let_def)
qed

section \<open>The equity sub-plan\<close>

text \<open>
  C9. Every equity line returned by \<^verbatim>\<open>_calculate_stock_allocation\<close>, and so every equity
  line of a plan returned by \<^verbatim>\<open>calculate_weekly_investment\<close>, has at least one share: the
  first loop stores \<open>max(1, round(target_shares))\<close> and the correction loop only
  decrements a line that holds more than one share.
\<close>

theorem equity_units_at_least_one:
  "(calculate_stock_allocation cfg budget prices = Inr out \<longrightarrow>
      (\<forall>(s, d) \<in> set out. 1 \<le> shares d))
   \<and> (calculate_weekly_investment cfg stock_prices crypto_prices tao_price = Inr plan \<longrightarrow>
      (\<forall>(s, d) \<in> set (stocks plan). 1 \<le> shares d))"
proof (intro conjI impI)
  assume "calculate_stock_allocation cfg budget prices = Inr out"
  then have "well_formed out" by (rule stock_allocation_well_formed)
  then show "\<forall>(s, d) \<in> set out. 1 \<le> shares d" by (simp add: well_formed_def)
next
  assume "calculate_weekly_investment cfg stock_prices crypto_prices tao_price = Inr plan"
  then have "calculate_stock_allocation cfg (weekly_usd_limit (limits cfg)) stock_prices
      = Inr (stocks plan)"
    by (auto simp: calculate_weekly_investment_def Let_def split: sum.splits if_splits)
  then have "well_formed (stocks plan)" by (rule stock_allocation_well_formed)
  then show "\<forall>(s, d) \<in> set (stocks plan). 1 \<le> shares d" by (simp add: well_formed_def)
qed

theorem equity_units_at_least_one_witness:
  "calculate_stock_allocation two_stock_cfg 100 two_stock_prices = Inr two_stock_lines
   \<and> list_all (\<lambda>(s, d). 1 \<le> shares d) two_stock_lines
   \<and> calculate_weekly_investment example_cfg example_stock_prices example_crypto_prices 700
        = Inr example_plan
   \<and> list_all (\<lambda>(s, d). 1 \<le> shares d) (stocks example_plan)"
proof -
  note w = equity_units_at_least_one [where cfg = two_stock_cfg and budget = 100
      and prices = two_stock_prices and out = two_stock_lines]
  note w' = equity_units_at_least_one [where cfg = example_cfg
      and stock_prices = example_stock_prices and crypto_prices = example_crypto_prices
      and tao_price = 700 and plan = example_plan]
  have 1: "\<forall>(s, d) \<in> set two_stock_lines. 1 \<le> shares d"
    using conjunct1 [OF w] two_stock_lines_computed by (rule mp)
  have 2: "\<forall>(s, d) \<in> set (stocks example_plan). 1 \<le> shares d"
    using conjunct2 [OF w'] example_plan_computed by (rule mp)
  show ?thesis
  proof (intro conjI)
    show "calculate_stock_allocation two_stock_cfg 100 two_stock_prices = Inr two_stock_lines"
      by (rule two_stock_lines_computed)
    show "list_all (\<lambda>(s, d). 1 \<le> shares d) two_stock_lines"
      unfolding list_all_iff by (rule 1)
    show "calculate_weekly_investment example_cfg example_stock_prices example_crypto_prices 700
        = Inr example_plan" by (rule example_plan_computed)
    show "list_all (\<lambda>(s, d). 1 \<le> shares d) (stocks example_plan)"
      unfolding list_all_iff by (rule 2)
  qed
qed

text \<open>
  C3, as stated, fails: with the example configuration (weekly limit 2000 USD) and prices
  2500, 2000 and 1500 every symbol gets its mandatory single share, the total is 6000 and
  exceeds 2000 * 1.5 = 3000; the correction loop finds no line with more than one share
  and takes its \<^verbatim>\<open>break\<close>.
\<close>

theorem equity_total_exceeds_allowance:
  "calculate_stock_allocation example_cfg (weekly_usd_limit (limits example_cfg)) expensive_prices
     = Inr expensive_lines
   \<and> \<not> total_cost expensive_lines \<le> weekly_usd_limit (limits example_cfg) * 1.5"
proof -
  have "weekly_usd_limit (limits example_cfg) = 2000" by (simp add: example_cfg_def)
  then show ?thesis
    using expensive_lines_computed by (simp add: total_cost_def expensive_lines_def)
qed

text \<open>
  C3, amended. If the configured ratios do not sum to zero, every configured equity symbol
  that has a price has a strictly positive one, and no configured symbol is the empty
  string, then \<^verbatim>\<open>_calculate_stock_allocation\<close> returns an equity sub-plan whose total is at
  most \<open>budget * 1.5\<close>, or in which every line holds exactly one share.
\<close>

theorem equity_total_bounded_or_single_units:
  assumes total: "sum_list (map snd (stock_allocation (portfolio cfg))) \<noteq> 0"
    and pos: "\<forall>(s, r) \<in> set (stock_allocation (portfolio cfg)). \<forall>p. prices s = Some p \<longrightarrow> 0 < p"
    and names: "[] \<notin> fst ` set (stock_allocation (portfolio cfg))"
  shows "\<exists>out. calculate_stock_allocation cfg budget prices = Inr out
           \<and> (total_cost out \<le> budget * 1.5 \<or> (\<forall>(s, d) \<in> set out. shares d = 1))"
proof -
  let ?al = "stock_allocation (portfolio cfg)"
  let ?t = "sum_list (map snd ?al)"
  have "\<forall>(s, r) \<in> set ?al. prices s \<noteq> Some 0" using pos by fastforce
  with total obtain ivs where fr: "first_round budget ?t prices ?al [] = Inr ivs"
    using first_round_returns by blast
  define out where "out = correction_loop (budget * 1.5) ivs"
  have res: "calculate_stock_allocation cfg budget prices = Inr out"
    using fr by (simp add: calculate_stock_allocation_def Let_def out_def)
  then have wf: "well_formed out" by (rule stock_allocation_well_formed)
  have entry: "0 < price d"
    if "(s, r) \<in> set ?al" "prices s = Some p" "stock_entry budget ?t r p = Inr d" for s r p d
  proof -
    have "0 < p" using pos that(1,2) by fastforce
    then show ?thesis using stock_entry_Inr(3) [OF that(3)] by simp
  qed
  have "\<forall>(s, d) \<in> set ivs. 0 < price d"
    using fr _ entry by (rule first_round_lines) simp
  then have prices_pos: "\<forall>(s, d) \<in> set out. 0 < price d"
    unfolding out_def by (rule correction_loop_prices)
  have "fst ` set ivs = {s \<in> fst ` set ?al. prices s \<noteq> None}"
    using first_round_keys [OF fr] by simp
  moreover have "set (map fst out) = set (map fst ivs)"
    unfolding out_def by (simp only: correction_loop_keys)
  ultimately have keys: "[] \<notin> fst ` set out" using names by auto
  have "total_cost out \<le> budget * 1.5 \<or> (\<forall>(s, d) \<in> set out. shares d = 1)"
    using correction_loop_exit [of "budget * 1.5" ivs] single_units_at_exit [OF wf prices_pos keys]
    unfolding out_def by blast
  with res show ?thesis by blast
qed

theorem equity_total_bounded_or_single_units_witness:
  "sum_list (map snd (stock_allocation (portfolio example_cfg))) \<noteq> 0
   \<and> list_all (\<lambda>(s, r). \<forall>p. example_stock_prices s = Some p \<longrightarrow> 0 < p)
         (stock_allocation (portfolio example_cfg))
   \<and> list_all (\<lambda>(s, r). \<forall>p. expensive_prices s = Some p \<longrightarrow> 0 < p)
         (stock_allocation (portfolio example_cfg))
   \<and> [] \<notin> fst ` set (stock_allocation (portfolio example_cfg))
   \<and> (\<exists>out. calculate_stock_allocation example_cfg 2000 example_stock_prices = Inr out
          \<and> (total_cost out \<le> 2000 * 1.5 \<or> (\<forall>(s, d) \<in> set out. shares d = 1)))
   \<and> (\<exists>out. calculate_stock_allocation example_cfg 2000 expensive_prices = Inr out
          \<and> (total_cost out \<le> 2000 * 1.5 \<or> (\<forall>(s, d) \<in> set out. shares d = 1)))"
proof -
  have h1: "sum_list (map snd (stock_allocation (portfolio example_cfg))) \<noteq> 0"
    by (simp add: example_cfg_def)
  have h2: "\<forall>(s, r) \<in> set (stock_allocation (portfolio example_cfg)).
         \<forall>p. example_stock_prices s = Some p \<longrightarrow> 0 < p"
    by (simp add: example_defs)
  have h2': "\<forall>(s, r) \<in> set (stock_allocation (portfolio example_cfg)).
         \<forall>p. expensive_prices s = Some p \<longrightarrow> 0 < p"
    by (simp add: example_defs expensive_prices_def)
  have h3: "[] \<notin> fst ` set (stock_allocation (portfolio example_cfg))"
    by (simp add: example_cfg_def)
  note r = equity_total_bounded_or_single_units [OF h1 h2 h3, of 2000]
  note r' = equity_total_bounded_or_single_units [OF h1 h2' h3, of 2000]
  show ?thesis
  proof (intro conjI)
    show "sum_list (map snd (stock_allocation (portfolio example_cfg))) \<noteq> 0" by (rule h1)
    show "list_all (\<lambda>(s, r). \<forall>p. example_stock_prices s = Some p \<longrightarrow> 0 < p)
         (stock_allocation (portfolio example_cfg))" unfolding list_all_iff by (rule h2)
    show "list_all (\<lambda>(s, r). \<forall>p. expensive_prices s = Some p \<longrightarrow> 0 < p)
         (stock_allocation (portfolio example_cfg))" unfolding list_all_iff by (rule h2')
    show "[] \<notin> fst ` set (stock_allocation (portfolio example_cfg))" by (rule h3)
    show "\<exists>out. calculate_stock_allocation example_cfg 2000 example_stock_prices = Inr out
          \<and> (total_cost out \<le> 2000 * 1.5 \<or> (\<forall>(s, d) \<in> set out. shares d = 1))" by (rule r)
    show "\<exists>out. calculate_stock_allocation example_cfg 2000 expensive_prices = Inr out
          \<and> (total_cost out \<le> 2000 * 1.5 \<or> (\<forall>(s, d) \<in> set out. shares d = 1))" by (rule r')
  qed
qed

section \<open>Symbols without a price\<close>

lemma partial_plan_computed:
  "calculate_weekly_investment example_cfg partial_stock_prices example_crypto_prices 700 =
     Inr partial_plan"
  by (simp add: eval_defs example_defs partial_stock_prices_def partial_plan_def)

text \<open>
  C1, as stated, fails: the source has no missing-price error. With the example
  configuration and a snapshot that has no price for VOO, \<^verbatim>\<open>calculate_weekly_investment\<close>
  returns a plan whose equity lines are QQQ and GLDM only.
\<close>

theorem missing_price_gives_partial_plan:
  "''VOO'' \<in> fst ` set (stock_allocation (portfolio example_cfg))
   \<and> partial_stock_prices ''VOO'' = None
   \<and> calculate_weekly_investment example_cfg partial_stock_prices example_crypto_prices 700
        = Inr partial_plan
   \<and> map fst (stocks partial_plan) = [''QQQ'', ''GLDM'']"
  using partial_plan_computed
  by (simp add: example_cfg_def partial_stock_prices_def partial_plan_def)

text \<open>
  C1, amended. A configured symbol that is absent from its price map is skipped by the
  guard \<^verbatim>\<open>if symbol in prices\<close>. Whenever no division by zero occurs (the stock weight, the
  TAO price, the sum of the equity ratios and the supplied prices of configured symbols
  are non-zero), \<^verbatim>\<open>calculate_weekly_investment\<close> returns a plan, and the symbols of its
  equity and crypto lines are exactly the configured symbols that have a price.
\<close>

theorem unpriced_symbols_skipped:
  assumes sw: "stock_weight (portfolio cfg) \<noteq> 0"
    and tao: "tao_price \<noteq> 0"
    and total: "sum_list (map snd (stock_allocation (portfolio cfg))) \<noteq> 0"
    and sp: "\<forall>(s, r) \<in> set (stock_allocation (portfolio cfg)). stock_prices s \<noteq> Some 0"
    and cp: "\<forall>(s, r) \<in> set (crypto_allocation (portfolio cfg)). crypto_prices s \<noteq> Some 0"
  shows "\<exists>plan. calculate_weekly_investment cfg stock_prices crypto_prices tao_price = Inr plan
      \<and> fst ` set (stocks plan) =
          {s \<in> fst ` set (stock_allocation (portfolio cfg)). stock_prices s \<noteq> None}
      \<and> fst ` set (cryptos plan) =
          {s \<in> fst ` set (crypto_allocation (portfolio cfg)). crypto_prices s \<noteq> None}"
proof -
  from stock_allocation_returns [OF total sp]
  obtain st where st: "calculate_stock_allocation cfg (weekly_usd_limit (limits cfg)) stock_prices
      = Inr st" by blast
  define cb where "cb = py_min (total_cost st * (crypto_weight (portfolio cfg) / stock_weight (portfolio cfg)))
      (weekly_tao_limit (limits cfg) * tao_price)"
  from crypto_round_returns [OF cp]
  obtain cr where cr: "crypto_round cb crypto_prices (crypto_allocation (portfolio cfg)) [] = Inr cr"
    by blast
  define plan where "plan = \<lparr>stock_total = total_cost st, crypto_total = cb,
      crypto_tao_amount = cb / tao_price, stocks = st, cryptos = cr,
      total_budget = total_cost st + cb\<rparr>"
  have "calculate_weekly_investment cfg stock_prices crypto_prices tao_price = Inr plan"
    using st cr sw tao
    by (simp add: calculate_weekly_investment_def calculate_crypto_allocation_def Let_def
        cb_def plan_def)
  moreover have "fst ` set (stocks plan) =
      {s \<in> fst ` set (stock_allocation (portfolio cfg)). stock_prices s \<noteq> None}"
    using stock_allocation_keys [OF st] by (simp add: plan_def)
  moreover have "fst ` set (cryptos plan) =
      {s \<in> fst ` set (crypto_allocation (portfolio cfg)). crypto_prices s \<noteq> None}"
    using crypto_round_keys [OF cr] by (simp add: plan_def)
  ultimately show ?thesis by blast
qed

theorem unpriced_symbols_skipped_witness:
  "stock_weight (portfolio example_cfg) \<noteq> 0
   \<and> (700::real) \<noteq> 0
   \<and> sum_list (map snd (stock_allocation (portfolio example_cfg))) \<noteq> 0
   \<and> list_all (\<lambda>(s, r). partial_stock_prices s \<noteq> Some 0)
         (stock_allocation (portfolio example_cfg))
   \<and> list_all (\<lambda>(s, r). example_crypto_prices s \<noteq> Some 0)
         (crypto_allocation (portfolio example_cfg))
   \<and> (\<exists>plan. calculate_weekly_investment example_cfg partial_stock_prices example_crypto_prices 700
          = Inr plan
      \<and> fst ` set (stocks plan) =
          {s \<in> fst ` set (stock_allocation (portfolio example_cfg)). partial_stock_prices s \<noteq> None}
      \<and> fst ` set (cryptos plan) =
          {s \<in> fst ` set (crypto_allocation (portfolio example_cfg)). example_crypto_prices s \<noteq> None})"
proof -
  have h1: "stock_weight (portfolio example_cfg) \<noteq> 0" by (simp add: example_cfg_def)
  have h2: "(700::real) \<noteq> 0" by simp
  have h3: "sum_list (map snd (stock_allocation (portfolio example_cfg))) \<noteq> 0"
    by (simp add: example_cfg_def)
  have h4: "\<forall>(s, r) \<in> set (stock_allocation (portfolio example_cfg)). partial_stock_prices s \<noteq> Some 0"
    by (simp add: example_cfg_def partial_stock_prices_def)
  have h5: "\<forall>(s, r) \<in> set (crypto_allocation (portfolio example_cfg)). example_crypto_prices s \<noteq> Some 0"
    by (simp add: example_defs)
  note r = unpriced_symbols_skipped [OF h1 h2 h3 h4 h5]
  show ?thesis
  proof (intro conjI)
    show "stock_weight (portfolio example_cfg) \<noteq> 0" by (rule h1)
    show "(700::real) \<noteq> 0" by (rule h2)
    show "sum_list (map snd (stock_allocation (portfolio example_cfg))) \<noteq> 0" by (rule h3)
    show "list_all (\<lambda>(s, r). partial_stock_prices s \<noteq> Some 0)
         (stock_allocation (portfolio example_cfg))" unfolding list_all_iff by (rule h4)
    show "list_all (\<lambda>(s, r). example_crypto_prices s \<noteq> Some 0)
         (crypto_allocation (portfolio example_cfg))" unfolding list_all_iff by (rule h5)
    show "\<exists>plan. calculate_weekly_investment example_cfg partial_stock_prices example_crypto_prices 700
          = Inr plan
      \<and> fst ` set (stocks plan) =
          {s \<in> fst ` set (stock_allocation (portfolio example_cfg)). partial_stock_prices s \<noteq> None}
      \<and> fst ` set (cryptos plan) =
          {s \<in> fst ` set (crypto_allocation (portfolio example_cfg)). example_crypto_prices s \<noteq> None}"
      by (rule r)
  qed
qed

section \<open>The normalising denominator of the equity targets\<close>

lemma one_priced_computed:
  "calculate_stock_allocation two_stock_cfg 1000 one_priced = Inr one_priced_lines"
  by (simp add: eval_defs example_defs cfg_with_stocks_def two_stock_cfg_def one_priced_def
      one_priced_lines_def)

lemma one_priced_first_round:
  "first_round 1000 (sum_list (map snd (stock_allocation (portfolio two_stock_cfg)))) one_priced
     (stock_allocation (portfolio two_stock_cfg)) [] = Inr one_priced_lines"
  by (simp add: eval_defs example_defs cfg_with_stocks_def two_stock_cfg_def one_priced_def
      one_priced_lines_def)

text \<open>
  C7, as stated, fails: the denominator is the sum of all configured ratios. With ratios
  A: 0.5 and B: 0.5, a budget of 1000 and a price for A only (100), the source targets
  1000 * (0.5 / 1.0) = 500 and buys 5 shares of A; dividing by the ratios of the priced
  symbols only (0.5) would target 1000 and buy 10.
\<close>

theorem ratio_sum_counts_unpriced_symbols:
  "calculate_stock_allocation two_stock_cfg 1000 [''A'' \<mapsto> 100] =
     Inr [(''A'', \<lparr>amount = 500, ratio = 1 / 2, price = 100, shares = 5\<rparr>)]
   \<and> spec_ratio_sum (stock_allocation (portfolio two_stock_cfg)) [''A'' \<mapsto> 100] = 1 / 2
   \<and> py_max 1 (py_round (1000 * (1 / 2
         / spec_ratio_sum (stock_allocation (portfolio two_stock_cfg)) [''A'' \<mapsto> 100]) / 100)) = 10"
  by (simp add: eval_defs example_defs cfg_with_stocks_def two_stock_cfg_def spec_ratio_sum_def)

text \<open>
  C7, amended. In the equity allocation each priced symbol's target amount is
  \<open>budget * (ratio / total_allocation)\<close>, where \<open>total_allocation\<close> is the sum of all
  configured ratios, priced or not: every line of the first loop holds
  \<open>max(1, round(budget * (ratio / total_allocation) / price))\<close> shares. The sum over the
  priced symbols only is the same number when every configured symbol has a price.
\<close>

theorem target_amounts_use_all_ratios:
  assumes "calculate_stock_allocation cfg budget prices = Inr out"
  shows "\<exists>ivs. first_round budget (sum_list (map snd (stock_allocation (portfolio cfg)))) prices
              (stock_allocation (portfolio cfg)) [] = Inr ivs
      \<and> out = correction_loop (budget * 1.5) ivs
      \<and> (\<forall>(s, d) \<in> set ivs. \<exists>p. prices s = Some p
            \<and> (s, ratio d) \<in> set (stock_allocation (portfolio cfg))
            \<and> shares d = py_max 1 (py_round
                 (budget * (ratio d / sum_list (map snd (stock_allocation (portfolio cfg)))) / p))
            \<and> amount d = of_int (shares d) * p)
      \<and> ((\<forall>(s, r) \<in> set (stock_allocation (portfolio cfg)). prices s \<noteq> None) \<longrightarrow>
           spec_ratio_sum (stock_allocation (portfolio cfg)) prices
             = sum_list (map snd (stock_allocation (portfolio cfg))))"
proof -
  let ?al = "stock_allocation (portfolio cfg)"
  let ?t = "sum_list (map snd ?al)"
  from assms obtain ivs where
    fr: "first_round budget ?t prices ?al [] = Inr ivs"
    and out: "out = correction_loop (budget * 1.5) ivs"
    by (auto simp: calculate_stock_allocation_def Let_def split: sum.splits)
  have entry: "\<exists>p. prices s = Some p \<and> (s, ratio d) \<in> set ?al
      \<and> shares d = py_max 1 (py_round (budget * (ratio d / ?t) / p))
      \<and> amount d = of_int (shares d) * p"
    if "(s, r) \<in> set ?al" "prices s = Some p" "stock_entry budget ?t r p = Inr d" for s r p d
    using that stock_entry_Inr(4,5,6) [OF that(3)] by simp
  have lines: "\<forall>(s, d) \<in> set ivs. \<exists>p. prices s = Some p \<and> (s, ratio d) \<in> set ?al
      \<and> shares d = py_max 1 (py_round (budget * (ratio d / ?t) / p))
      \<and> amount d = of_int (shares d) * p"
    using fr _ entry by (rule first_round_lines) simp
  have "spec_ratio_sum ?al prices = ?t" if "\<forall>(s, r) \<in> set ?al. prices s \<noteq> None"
  proof -
    have "filter (\<lambda>(s, r). prices s \<noteq> None) ?al = ?al"
      using that by (intro filter_True) auto
    then show ?thesis by (simp add: spec_ratio_sum_def)
  qed
  with fr out lines show ?thesis by blast
qed

theorem target_amounts_use_all_ratios_witness:
  "calculate_stock_allocation two_stock_cfg 1000 one_priced = Inr one_priced_lines
   \<and> one_priced ''B'' = None
   \<and> sum_list (map snd (stock_allocation (portfolio two_stock_cfg))) = 1
   \<and> spec_ratio_sum (stock_allocation (portfolio two_stock_cfg)) one_priced = 1 / 2
   \<and> first_round 1000 (sum_list (map snd (stock_allocation (portfolio two_stock_cfg)))) one_priced
        (stock_allocation (portfolio two_stock_cfg)) [] = Inr one_priced_lines
   \<and> one_priced_lines = correction_loop (1000 * 1.5) one_priced_lines
   \<and> list_all (\<lambda>(s, d). \<exists>p. one_priced s = Some p
         \<and> (s, ratio d) \<in> set (stock_allocation (portfolio two_stock_cfg))
         \<and> shares d = py_max 1 (py_round
              (1000 * (ratio d / sum_list (map snd (stock_allocation (portfolio two_stock_cfg)))) / p))
         \<and> amount d = of_int (shares d) * p) one_priced_lines
   \<and> map (\<lambda>(s, d). shares d) one_priced_lines = [5]
   \<and> py_max 1 (py_round (1000 * (1 / 2 / 1) / 100)) = 5
   \<and> list_all (\<lambda>(s, r). example_stock_prices s \<noteq> None)
         (stock_allocation (portfolio example_cfg))
   \<and> spec_ratio_sum (stock_allocation (portfolio example_cfg)) example_stock_prices
        = sum_list (map snd (stock_allocation (portfolio example_cfg)))"
proof -
  note r = target_amounts_use_all_ratios [OF one_priced_computed]
  note r' = target_amounts_use_all_ratios [OF example_stocks_computed]
  from r obtain ivs where
    fr: "first_round 1000 (sum_list (map snd (stock_allocation (portfolio two_stock_cfg)))) one_priced
        (stock_allocation (portfolio two_stock_cfg)) [] = Inr ivs"
    and out: "one_priced_lines = correction_loop (1000 * 1.5) ivs"
    and lines: "\<forall>(s, d) \<in> set ivs. \<exists>p. one_priced s = Some p
         \<and> (s, ratio d) \<in> set (stock_allocation (portfolio two_stock_cfg))
         \<and> shares d = py_max 1 (py_round
              (1000 * (ratio d / sum_list (map snd (stock_allocation (portfolio two_stock_cfg)))) / p))
         \<and> amount d = of_int (shares d) * p"
    by (elim exE conjE)
  have ivs: "ivs = one_priced_lines" using fr one_priced_first_round by simp
  have h: "\<forall>(s, r) \<in> set (stock_allocation (portfolio example_cfg)). example_stock_prices s \<noteq> None"
    by (simp add: example_defs)
  from r' obtain ivs' where
    imp: "(\<forall>(s, r) \<in> set (stock_allocation (portfolio example_cfg)). example_stock_prices s \<noteq> None)
        \<longrightarrow> spec_ratio_sum (stock_allocation (portfolio example_cfg)) example_stock_prices
             = sum_list (map snd (stock_allocation (portfolio example_cfg)))"
    by (elim exE conjE)
  show ?thesis
  proof (intro conjI)
    show "calculate_stock_allocation two_stock_cfg 1000 one_priced = Inr one_priced_lines"
      by (rule one_priced_computed)
    show "one_priced ''B'' = None" by (simp add: one_priced_def)
    show "sum_list (map snd (stock_allocation (portfolio two_stock_cfg))) = 1"
      by (simp add: two_stock_cfg_def cfg_with_stocks_def)
    show "spec_ratio_sum (stock_allocation (portfolio two_stock_cfg)) one_priced = 1 / 2"
      by (simp add: two_stock_cfg_def cfg_with_stocks_def spec_ratio_sum_def one_priced_def)
    show "first_round 1000 (sum_list (map snd (stock_allocation (portfolio two_stock_cfg)))) one_priced
        (stock_allocation (portfolio two_stock_cfg)) [] = Inr one_priced_lines"
      using fr unfolding ivs .
    show "one_priced_lines = correction_loop (1000 * 1.5) one_priced_lines"
      using out unfolding ivs .
    show "list_all (\<lambda>(s, d). \<exists>p. one_priced s = Some p
         \<and> (s, ratio d) \<in> set (stock_allocation (portfolio two_stock_cfg))
         \<and> shares d = py_max 1 (py_round
              (1000 * (ratio d / sum_list (map snd (stock_allocation (portfolio two_stock_cfg)))) / p))
         \<and> amount d = of_int (shares d) * p) one_priced_lines"
      using lines unfolding ivs list_all_iff .
    show "map (\<lambda>(s, d). shares d) one_priced_lines = [5]"
      by (simp add: one_priced_lines_def)
    show "py_max 1 (py_round (1000 * (1 / 2 / 1) / 100)) = 5"
      by (simp add: py_max_def py_round_def)
    show "list_all (\<lambda>(s, r). example_stock_prices s \<noteq> None)
         (stock_allocation (portfolio example_cfg))" unfolding list_all_iff by (rule h)
    show "spec_ratio_sum (stock_allocation (portfolio example_cfg)) example_stock_prices
        = sum_list (map snd (stock_allocation (portfolio example_cfg)))"
      using imp h by (rule mp)
  qed
qed

section \<open>The crypto budget\<close>

text \<open>
  C2. Whenever \<^verbatim>\<open>calculate_weekly_investment\<close> returns a plan, \<open>stock_total\<close> is the sum
  of the equity line amounts and \<open>crypto_total\<close> is the smaller of
  \<open>stock_total * (crypto_weight / stock_weight)\<close> and \<open>weekly_tao_limit * tao_price\<close>.
  So \<open>crypto_total\<close> never exceeds the TAO cap, and it equals the proportional value
  whenever that value is below the cap.
\<close>

theorem crypto_total_capped:
  assumes "calculate_weekly_investment cfg stock_prices crypto_prices tao_price = Inr plan"
  shows "stock_total plan = total_cost (stocks plan)
       \<and> crypto_total plan =
           min (stock_total plan * (crypto_weight (portfolio cfg) / stock_weight (portfolio cfg)))
               (weekly_tao_limit (limits cfg) * tao_price)
       \<and> crypto_total plan \<le> weekly_tao_limit (limits cfg) * tao_price
       \<and> (stock_total plan * (crypto_weight (portfolio cfg) / stock_weight (portfolio cfg))
            < weekly_tao_limit (limits cfg) * tao_price \<longrightarrow>
          crypto_total plan =
            stock_total plan * (crypto_weight (portfolio cfg) / stock_weight (portfolio cfg)))"
  using assms
  by (auto simp: calculate_weekly_investment_def Let_def py_min_def min_def
      split: sum.splits if_splits)

theorem crypto_total_capped_witness:
  "calculate_weekly_investment example_cfg example_stock_prices example_crypto_prices 700
     = Inr example_plan
   \<and> stock_total example_plan
         * (crypto_weight (portfolio example_cfg) / stock_weight (portfolio example_cfg))
        < weekly_tao_limit (limits example_cfg) * 700
   \<and> crypto_total example_plan =
        stock_total example_plan
         * (crypto_weight (portfolio example_cfg) / stock_weight (portfolio example_cfg))
   \<and> crypto_total example_plan \<le> weekly_tao_limit (limits example_cfg) * 700"
proof -
  note c = crypto_total_capped [OF example_plan_computed]
  have below: "stock_total example_plan
         * (crypto_weight (portfolio example_cfg) / stock_weight (portfolio example_cfg))
        < weekly_tao_limit (limits example_cfg) * 700"
    by (simp add: example_cfg_def example_plan_def)
  with c show ?thesis
    using example_plan_computed by simp
qed

section \<open>Crash tiers\<close>

text \<open>
  C8. For ascending thresholds the tier of \<^verbatim>\<open>_determine_crash_level\<close> is monotone in the
  drop, and a drop receives the deepest tier whose threshold it meets, with that tier's
  multiplier: tier 3 from the third threshold on, tier 2 between the second and the
  third, tier 1 between the first and the second, tier 0 below the first. With
  thresholds 0.10/0.20/0.30 and multipliers 1.5/2.0/3.0 a drop of 0.21 is tier 2 with
  multiplier 2.0.
\<close>

theorem crash_level_monotone:
  assumes "level1_threshold (crash_config cfg) \<le> level2_threshold (crash_config cfg)"
    and "level2_threshold (crash_config cfg) \<le> level3_threshold (crash_config cfg)"
  shows "(d2 \<le> d1 \<longrightarrow> fst (determine_crash_level cfg d2) \<le> fst (determine_crash_level cfg d1))
       \<and> (level3_threshold (crash_config cfg) \<le> d1 \<longrightarrow>
            determine_crash_level cfg d1 = (3, level3_multiplier (crash_config cfg)))
       \<and> (level2_threshold (crash_config cfg) \<le> d1 \<and> d1 < level3_threshold (crash_config cfg) \<longrightarrow>
            determine_crash_level cfg d1 = (2, level2_multiplier (crash_config cfg)))
       \<and> (level1_threshold (crash_config cfg) \<le> d1 \<and> d1 < level2_threshold (crash_config cfg) \<longrightarrow>
            determine_crash_level cfg d1 = (1, level1_multiplier (crash_config cfg)))
       \<and> (d1 < level1_threshold (crash_config cfg) \<longrightarrow> determine_crash_level cfg d1 = (0, 1))
       \<and> determine_crash_level example_cfg 0.21 = (2, 2.0)"
  using assms by (auto simp: determine_crash_level_def example_cfg_def)

theorem crash_level_monotone_witness:
  "level1_threshold (crash_config example_cfg) \<le> level2_threshold (crash_config example_cfg)
   \<and> level2_threshold (crash_config example_cfg) \<le> level3_threshold (crash_config example_cfg)
   \<and> (0.21::real) \<le> 0.35
   \<and> fst (determine_crash_level example_cfg 0.21) \<le> fst (determine_crash_level example_cfg 0.35)
   \<and> determine_crash_level example_cfg 0.35 = (3, level3_multiplier (crash_config example_cfg))
   \<and> determine_crash_level example_cfg 0.21 = (2, level2_multiplier (crash_config example_cfg))
   \<and> determine_crash_level example_cfg 0.15 = (1, level1_multiplier (crash_config example_cfg))
   \<and> determine_crash_level example_cfg 0.05 = (0, 1)"
proof -
  have a1: "level1_threshold (crash_config example_cfg) \<le> level2_threshold (crash_config example_cfg)"
    by (simp add: example_cfg_def)
  have a2: "level2_threshold (crash_config example_cfg) \<le> level3_threshold (crash_config example_cfg)"
    by (simp add: example_cfg_def)
  have le: "(0.21::real) \<le> 0.35" by simp
  have t3: "level3_threshold (crash_config example_cfg) \<le> 0.35"
    by (simp add: example_cfg_def)
  have t2: "level2_threshold (crash_config example_cfg) \<le> 0.21
      \<and> 0.21 < level3_threshold (crash_config example_cfg)"
    by (simp add: example_cfg_def)
  have t1: "level1_threshold (crash_config example_cfg) \<le> 0.15
      \<and> 0.15 < level2_threshold (crash_config example_cfg)"
    by (simp add: example_cfg_def)
  have t0: "0.05 < level1_threshold (crash_config example_cfg)"
    by (simp add: example_cfg_def)
  have "fst (determine_crash_level example_cfg 0.21) \<le> fst (determine_crash_level example_cfg 0.35)"
    using crash_level_monotone [where cfg = example_cfg and ?d1.0 = "0.35" and ?d2.0 = "0.21", OF a1 a2] le
    by blast
  moreover have "determine_crash_level example_cfg 0.35 = (3, level3_multiplier (crash_config example_cfg))"
    using crash_level_monotone [where cfg = example_cfg and ?d1.0 = "0.35", OF a1 a2] t3 by blast
  moreover have "determine_crash_level example_cfg 0.21 = (2, level2_multiplier (crash_config example_cfg))"
    using crash_level_monotone [where cfg = example_cfg and ?d1.0 = "0.21", OF a1 a2] t2 by blast
  moreover have "determine_crash_level example_cfg 0.15 = (1, level1_multiplier (crash_config example_cfg))"
    using crash_level_monotone [where cfg = example_cfg and ?d1.0 = "0.15", OF a1 a2] t1 by blast
  moreover have "determine_crash_level example_cfg 0.05 = (0, 1)"
    using crash_level_monotone [where cfg = example_cfg and ?d1.0 = "0.05", OF a1 a2] t0 by blast
  ultimately show ?thesis using a1 a2 le by blast
qed

section \<open>The correction loop\<close>

lemma loop_step_None: "loop_step max_budget ivs = None \<Longrightarrow> correction_loop max_budget ivs = ivs"
  by (subst correction_loop.simps)
    (auto simp del: correction_loop.simps simp: loop_step_def split: if_splits option.splits)

lemma loop_step_Some:
  "loop_step max_budget ivs = Some ivs' \<Longrightarrow>
     correction_loop max_budget ivs = correction_loop max_budget ivs'"
  by (subst correction_loop.simps)
    (auto simp del: correction_loop.simps simp: loop_step_def split: if_splits option.splits)

lemma loop_step_selects:
  assumes "loop_step max_budget ivs = Some ivs'"
  shows "\<exists>s d. (s, d) \<in> set ivs \<and> 1 < shares d \<and> 0 < price d
           \<and> (\<forall>(s', d') \<in> set ivs. 1 < shares d' \<longrightarrow> price d' \<le> price d)
           \<and> ivs' = decrement s ivs \<and> total_units ivs' < total_units ivs"
proof -
  from assms obtain s where s: "fst (find_max_price ivs (None, 0)) = Some s"
    and ivs': "ivs' = decrement s ivs"
    by (auto simp: loop_step_def split: if_splits option.splits)
  from selected_is_highest_priced [OF s] obtain d where
    d: "(s, d) \<in> set ivs" "1 < shares d" "0 < price d"
      "\<forall>(s', d') \<in> set ivs. 1 < shares d' \<longrightarrow> price d' \<le> price d" by blast
  have "total_units (decrement s ivs) < total_units ivs"
    using d(1,2) by (rule total_units_decrement_less)
  with d ivs' show ?thesis by blast
qed

lemma decrement_is_update:
  "distinct (map fst ivs) \<Longrightarrow> (s, d) \<in> set ivs \<Longrightarrow>
     decrement s ivs = AList.update s (sell_one d) ivs"
proof (induction ivs)
  case Nil
  then show ?case by simp
next
  case (Cons a ivs)
  obtain symbol d' where a: "a = (symbol, d')" by (cases a)
  show ?case
  proof (cases "symbol = s")
    case True
    then have "d' = d" using Cons.prems a by (auto simp: image_iff)
    moreover have "decrement s ivs = ivs"
      using Cons.prems(1) a True by (auto simp: decrement_def image_iff intro!: map_idI)
    ultimately show ?thesis using a True by (simp add: decrement_def)
  next
    case False
    then have "(s, d) \<in> set ivs" using Cons.prems a by auto
    with Cons have "decrement s ivs = AList.update s (sell_one d) ivs" by simp
    then show ?thesis using a False by (simp add: decrement_def)
  qed
qed

lemma total_units_update_sell_one:
  "distinct (map fst ivs) \<Longrightarrow> (s, d) \<in> set ivs \<Longrightarrow> 1 < shares d \<Longrightarrow>
     total_units (AList.update s (sell_one d) ivs) + 1 = total_units ivs"
proof (induction ivs)
  case Nil
  then show ?case by simp
next
  case (Cons a ivs)
  obtain symbol d' where a: "a = (symbol, d')" by (cases a)
  show ?case
  proof (cases "symbol = s")
    case True
    then have "d' = d" using Cons.prems a by (auto simp: image_iff)
    then show ?thesis using a True Cons.prems(3)
      by (simp add: total_units_def sell_one_def)
  next
    case False
    then have "(s, d) \<in> set ivs" using Cons.prems a by auto
    with Cons have "total_units (AList.update s (sell_one d) ivs) + 1 = total_units ivs" by simp
    then show ?thesis using a False by (simp add: total_units_def)
  qed
qed

lemma run_loop_reaches:
  "total_units ivs \<le> n \<Longrightarrow> run_loop n max_budget ivs = Some (correction_loop max_budget ivs)"
proof (induction n arbitrary: ivs)
  case 0
  show ?case
  proof (cases "loop_step max_budget ivs")
    case None
    then have "correction_loop max_budget ivs = ivs" by (rule loop_step_None)
    with None show ?thesis by (simp del: correction_loop.simps)
  next
    case (Some ivs')
    from loop_step_selects [OF this] have "total_units ivs' < total_units ivs" by blast
    with 0 show ?thesis by simp
  qed
next
  case (Suc n)
  show ?case
  proof (cases "loop_step max_budget ivs")
    case None
    then have "correction_loop max_budget ivs = ivs" by (rule loop_step_None)
    with None show ?thesis by (simp del: correction_loop.simps)
  next
    case (Some ivs')
    from loop_step_selects [OF this] have "total_units ivs' < total_units ivs" by blast
    with Suc.prems have "total_units ivs' \<le> n" by simp
    then have "run_loop n max_budget ivs' = Some (correction_loop max_budget ivs')"
      by (rule Suc.IH)
    moreover have "correction_loop max_budget ivs = correction_loop max_budget ivs'"
      using Some by (rule loop_step_Some)
    ultimately show ?thesis using Some by (simp del: correction_loop.simps)
  qed
qed

lemma loop_step_exit_state:
  assumes stop: "loop_step max_budget ivs = None"
    and wf: "well_formed ivs"
    and pos: "\<forall>(s, d) \<in> set ivs. 0 < price d"
    and names: "[] \<notin> fst ` set ivs"
  shows "total_cost ivs \<le> max_budget \<or> (\<forall>(s, d) \<in> set ivs. shares d = 1)"
proof (cases "total_cost ivs \<le> max_budget")
  case True
  then show ?thesis by simp
next
  case False
  with stop have "fst (find_max_price ivs (None, 0)) = None
      \<or> fst (find_max_price ivs (None, 0)) = Some []"
    by (auto simp: loop_step_def split: if_splits option.splits)
  from single_units_at_exit [OF wf pos names this] show ?thesis by simp
qed

lemma loop_step_correction_loop: "loop_step max_budget (correction_loop max_budget ivs) = None"
proof (induction max_budget ivs rule: correction_loop.induct)
  case (1 max_budget ivs)
  show ?case
  proof (cases "loop_step max_budget ivs")
    case None
    then have "correction_loop max_budget ivs = ivs" by (rule loop_step_None)
    with None show ?thesis by (simp del: correction_loop.simps)
  next
    case (Some ivs')
    then obtain s where t: "total_cost ivs > max_budget"
      and s: "fst (find_max_price ivs (None, 0)) = Some s" and ne: "s \<noteq> []"
      and ivs': "ivs' = decrement s ivs"
      by (auto simp: loop_step_def split: if_splits option.splits)
    have "correction_loop max_budget ivs = correction_loop max_budget ivs'"
      using Some by (rule loop_step_Some)
    with "1.IH" [OF t s ne] ivs' show ?thesis by (simp del: correction_loop.simps)
  qed
qed


lemma priced_exit_state:
  assumes res: "calculate_stock_allocation cfg budget prices = Inr out"
    and key: "prices [] = None"
    and pos: "\<forall>s p. prices s = Some p \<longrightarrow> 0 < p"
  shows "total_cost out \<le> budget * 1.5 \<or> (\<forall>(s, d) \<in> set out. shares d = 1)"
proof -
  let ?al = "stock_allocation (portfolio cfg)"
  let ?t = "sum_list (map snd ?al)"
  from res obtain ivs where fr: "first_round budget ?t prices ?al [] = Inr ivs"
    and out: "out = correction_loop (budget * 1.5) ivs"
    by (auto simp: calculate_stock_allocation_def Let_def split: sum.splits)
  have wf: "well_formed out" using res by (rule stock_allocation_well_formed)
  have entry: "0 < price d"
    if "(s, r) \<in> set ?al" "prices s = Some p" "stock_entry budget ?t r p = Inr d" for s r p d
  proof -
    have "0 < p" using pos that(2) by blast
    then show ?thesis using stock_entry_Inr(3) [OF that(3)] by simp
  qed
  have "\<forall>(s, d) \<in> set ivs. 0 < price d"
    using fr _ entry by (rule first_round_lines) simp
  then have prices_pos: "\<forall>(s, d) \<in> set out. 0 < price d"
    unfolding out by (rule correction_loop_prices)
  have "fst ` set out = {s \<in> fst ` set ?al. prices s \<noteq> None}"
    using res by (rule stock_allocation_keys)
  then have names: "[] \<notin> fst ` set out" using key by simp
  have "loop_step (budget * 1.5) out = None"
    unfolding out by (rule loop_step_correction_loop)
  then show ?thesis using wf prices_pos names by (rule loop_step_exit_state)
qed

lemma two_stock_first_round_step:
  "loop_step 150 two_stock_first_round = Some two_stock_lines"
  by (simp add: loop_step_def two_stock_first_round_def two_stock_lines_def total_cost_def
      decrement_def sell_one_def)

lemma two_stock_first_round_loop:
  "correction_loop 150 two_stock_first_round = two_stock_lines"
  by (simp add: two_stock_first_round_def two_stock_lines_def total_cost_def
      decrement_def sell_one_def)

lemma two_stock_lines_stop: "loop_step 150 two_stock_lines = None"
  by (simp add: loop_step_def two_stock_lines_def total_cost_def)

text \<open>
  C10. The correction loop terminates on every input: counted by iterations, it is left
  after at most as many passes as there are shares, in the state \<open>correction_loop\<close>
  returns, and that state is one the loop does not continue from. Each pass that stays
  in the loop sells one share of the highest-priced line that holds more than one, which
  lowers the total number of shares by one. When the loop is left on lines that hold at
  least one share each, have positive prices and non-empty names, the total is within
  \<open>max_budget\<close> or every line holds exactly one share; this is the state in which
  \<^verbatim>\<open>_calculate_stock_allocation\<close> returns for every price map with positive prices that
  has no entry for the empty string.
\<close>

theorem correction_loop_terminates:
  "run_loop (total_units ivs) max_budget ivs = Some (correction_loop max_budget ivs)
   \<and> loop_step max_budget (correction_loop max_budget ivs) = None
   \<and> (loop_step max_budget ivs = Some ivs' \<longrightarrow>
        (\<exists>s d. (s, d) \<in> set ivs \<and> 1 < shares d
           \<and> (\<forall>(s', d') \<in> set ivs. 1 < shares d' \<longrightarrow> price d' \<le> price d)
           \<and> ivs' = decrement s ivs \<and> total_units ivs' < total_units ivs
           \<and> (distinct (map fst ivs) \<longrightarrow>
                ivs' = AList.update s (sell_one d) ivs
                \<and> shares (sell_one d) = shares d - 1
                \<and> total_units ivs' + 1 = total_units ivs)))
   \<and> (loop_step max_budget ivs = None \<and> well_formed ivs
        \<and> (\<forall>(s, d) \<in> set ivs. 0 < price d) \<and> [] \<notin> fst ` set ivs \<longrightarrow>
        total_cost ivs \<le> max_budget \<or> (\<forall>(s, d) \<in> set ivs. shares d = 1))
   \<and> (calculate_stock_allocation cfg budget prices = Inr out \<and> prices [] = None
        \<and> (\<forall>s p. prices s = Some p \<longrightarrow> 0 < p) \<longrightarrow>
        total_cost out \<le> budget * 1.5 \<or> (\<forall>(s, d) \<in> set out. shares d = 1))"
proof (intro conjI impI)
  show "run_loop (total_units ivs) max_budget ivs = Some (correction_loop max_budget ivs)"
    by (rule run_loop_reaches) simp
  show "loop_step max_budget (correction_loop max_budget ivs) = None"
    by (rule loop_step_correction_loop)
next
  assume step: "loop_step max_budget ivs = Some ivs'"
  from loop_step_selects [OF step] obtain s d where
    d: "(s, d) \<in> set ivs" "1 < shares d"
      "\<forall>(s', d') \<in> set ivs. 1 < shares d' \<longrightarrow> price d' \<le> price d"
      "ivs' = decrement s ivs" "total_units ivs' < total_units ivs" by blast
  have "ivs' = AList.update s (sell_one d) ivs \<and> shares (sell_one d) = shares d - 1
      \<and> total_units ivs' + 1 = total_units ivs" if dist: "distinct (map fst ivs)"
  proof -
    have u: "ivs' = AList.update s (sell_one d) ivs"
      using decrement_is_update [OF dist d(1)] d(4) by simp
    have "total_units (AList.update s (sell_one d) ivs) + 1 = total_units ivs"
      using dist d(1,2) by (rule total_units_update_sell_one)
    with u show ?thesis by (simp add: sell_one_def)
  qed
  with d show "\<exists>s d. (s, d) \<in> set ivs \<and> 1 < shares d
           \<and> (\<forall>(s', d') \<in> set ivs. 1 < shares d' \<longrightarrow> price d' \<le> price d)
           \<and> ivs' = decrement s ivs \<and> total_units ivs' < total_units ivs
           \<and> (distinct (map fst ivs) \<longrightarrow>
                ivs' = AList.update s (sell_one d) ivs
                \<and> shares (sell_one d) = shares d - 1
                \<and> total_units ivs' + 1 = total_units ivs)" by blast
next
  assume "loop_step max_budget ivs = None \<and> well_formed ivs
        \<and> (\<forall>(s, d) \<in> set ivs. 0 < price d) \<and> [] \<notin> fst ` set ivs"
  then show "total_cost ivs \<le> max_budget \<or> (\<forall>(s, d) \<in> set ivs. shares d = 1)"
    using loop_step_exit_state by blast
next
  assume "calculate_stock_allocation cfg budget prices = Inr out \<and> prices [] = None
        \<and> (\<forall>s p. prices s = Some p \<longrightarrow> 0 < p)"
  then show "total_cost out \<le> budget * 1.5 \<or> (\<forall>(s, d) \<in> set out. shares d = 1)"
    using priced_exit_state by blast
qed


theorem correction_loop_terminates_witness:
  "loop_step 150 two_stock_first_round = Some two_stock_lines
   \<and> distinct (map fst two_stock_first_round)
   \<and> total_units two_stock_lines + 1 = total_units two_stock_first_round
   \<and> run_loop (total_units two_stock_first_round) 150 two_stock_first_round
        = Some two_stock_lines
   \<and> loop_step 150 two_stock_lines = None
   \<and> well_formed two_stock_lines
   \<and> list_all (\<lambda>(s, d). 0 < price d) two_stock_lines
   \<and> [] \<notin> fst ` set two_stock_lines
   \<and> \<not> total_cost two_stock_lines \<le> 150
   \<and> list_all (\<lambda>(s, d). shares d = 1) two_stock_lines
   \<and> calculate_stock_allocation two_stock_cfg 100 two_stock_prices = Inr two_stock_lines
   \<and> two_stock_prices [] = None
   \<and> (total_cost two_stock_lines \<le> 100 * 1.5
        \<or> list_all (\<lambda>(s, d). shares d = 1) two_stock_lines)"
proof -
  note w1 = correction_loop_terminates [where ivs = two_stock_first_round
      and max_budget = 150 and ivs' = two_stock_lines]
  note w2 = correction_loop_terminates [where ivs = two_stock_lines and max_budget = 150
      and cfg = two_stock_cfg and budget = 100 and prices = two_stock_prices
      and out = two_stock_lines]
  have dist: "distinct (map fst two_stock_first_round)"
    by (simp add: two_stock_first_round_def)
  have "\<exists>s d. (s, d) \<in> set two_stock_first_round \<and> 1 < shares d
           \<and> (\<forall>(s', d') \<in> set two_stock_first_round. 1 < shares d' \<longrightarrow> price d' \<le> price d)
           \<and> two_stock_lines = decrement s two_stock_first_round
           \<and> total_units two_stock_lines < total_units two_stock_first_round
           \<and> (distinct (map fst two_stock_first_round) \<longrightarrow>
                two_stock_lines = AList.update s (sell_one d) two_stock_first_round
                \<and> shares (sell_one d) = shares d - 1
                \<and> total_units two_stock_lines + 1 = total_units two_stock_first_round)"
    using conjunct1 [OF conjunct2 [OF conjunct2 [OF w1]]] two_stock_first_round_step
    by (rule mp)
  then obtain s d where "distinct (map fst two_stock_first_round) \<longrightarrow>
                two_stock_lines = AList.update s (sell_one d) two_stock_first_round
                \<and> shares (sell_one d) = shares d - 1
                \<and> total_units two_stock_lines + 1 = total_units two_stock_first_round"
    by (elim exE conjE)
  then have units: "total_units two_stock_lines + 1 = total_units two_stock_first_round"
    using dist by (elim impE conjE)
  have run: "run_loop (total_units two_stock_first_round) 150 two_stock_first_round
        = Some two_stock_lines"
    using conjunct1 [OF w1] by (simp only: two_stock_first_round_loop)
  have wf: "well_formed two_stock_lines"
    by (simp add: well_formed_def two_stock_lines_def)
  have pos: "\<forall>(s, d) \<in> set two_stock_lines. 0 < price d"
    by (simp add: two_stock_lines_def)
  have names: "[] \<notin> fst ` set two_stock_lines"
    by (simp add: two_stock_lines_def)
  have over: "\<not> total_cost two_stock_lines \<le> 150"
    by (simp add: two_stock_lines_def total_cost_def)
  have "loop_step 150 two_stock_lines = None \<and> well_formed two_stock_lines
        \<and> (\<forall>(s, d) \<in> set two_stock_lines. 0 < price d) \<and> [] \<notin> fst ` set two_stock_lines"
    using two_stock_lines_stop wf pos names by (intro conjI)
  with conjunct1 [OF conjunct2 [OF conjunct2 [OF conjunct2 [OF w2]]]]
  have "total_cost two_stock_lines \<le> 150 \<or> (\<forall>(s, d) \<in> set two_stock_lines. shares d = 1)"
    by (rule mp)
  with over have single: "\<forall>(s, d) \<in> set two_stock_lines. shares d = 1" by (elim disjE) simp_all
  have key: "two_stock_prices [] = None" by (simp add: two_stock_prices_def)
  have ppos: "\<forall>s p. two_stock_prices s = Some p \<longrightarrow> 0 < p"
    by (auto simp: two_stock_prices_def split: if_splits)
  have "calculate_stock_allocation two_stock_cfg 100 two_stock_prices = Inr two_stock_lines
        \<and> two_stock_prices [] = None \<and> (\<forall>s p. two_stock_prices s = Some p \<longrightarrow> 0 < p)"
    using two_stock_lines_computed key ppos by (intro conjI)
  with conjunct2 [OF conjunct2 [OF conjunct2 [OF conjunct2 [OF w2]]]]
  have "total_cost two_stock_lines \<le> 100 * 1.5
      \<or> (\<forall>(s, d) \<in> set two_stock_lines. shares d = 1)"
    by (rule mp)
  then have last: "total_cost two_stock_lines \<le> 100 * 1.5
        \<or> list_all (\<lambda>(s, d). shares d = 1) two_stock_lines"
    unfolding list_all_iff .
  show ?thesis
  proof (intro conjI)
    show "loop_step 150 two_stock_first_round = Some two_stock_lines"
      by (rule two_stock_first_round_step)
    show "distinct (map fst two_stock_first_round)" by (rule dist)
    show "total_units two_stock_lines + 1 = total_units two_stock_first_round" by (rule units)
    show "run_loop (total_units two_stock_first_round) 150 two_stock_first_round
        = Some two_stock_lines" by (rule run)
    show "loop_step 150 two_stock_lines = None" by (rule two_stock_lines_stop)
    show "well_formed two_stock_lines" by (rule wf)
    show "list_all (\<lambda>(s, d). 0 < price d) two_stock_lines"
      unfolding list_all_iff by (rule pos)
    show "[] \<notin> fst ` set two_stock_lines" by (rule names)
    show "\<not> total_cost two_stock_lines \<le> 150" by (rule over)
    show "list_all (\<lambda>(s, d). shares d = 1) two_stock_lines"
      unfolding list_all_iff by (rule single)
    show "calculate_stock_allocation two_stock_cfg 100 two_stock_prices = Inr two_stock_lines"
      by (rule two_stock_lines_computed)
    show "two_stock_prices [] = None" by (rule key)
    show "total_cost two_stock_lines \<le> 100 * 1.5
        \<or> list_all (\<lambda>(s, d). shares d = 1) two_stock_lines" by (rule last)
  qed
qed

text \<open>
  The price map must not have the empty string as a key: \<^verbatim>\<open>if max_price_symbol:\<close> is a
  truth test, so a selected symbol \<open>''\<close> takes the \<^verbatim>\<open>break\<close> while it still holds two shares.
  The price maps the repository builds are keyed by ticker names.
\<close>

lemma empty_symbol_stops_correction:
  "calculate_stock_allocation (cfg_with_stocks [('''', 0.5), (''B'', 0.5)]) 100
       ['''' \<mapsto> 30, ''B'' \<mapsto> 400] =
     Inr [('''', \<lparr>amount = 60, ratio = 1 / 2, price = 30, shares = 2\<rparr>),
          (''B'', \<lparr>amount = 400, ratio = 1 / 2, price = 400, shares = 1\<rparr>)]
   \<and> (100::real) * 1.5 < 60 + 400"
  by (simp add: eval_defs example_defs cfg_with_stocks_def)

section \<open>Rebalancing with no holdings\<close>

lemma sum_list_zero_values:
  "\<forall>(s, v) \<in> set current_portfolio. v = (0::real) \<Longrightarrow> sum_list (map snd current_portfolio) = 0"
  by (induction current_portfolio) auto

lemma zero_portfolio_raises:
  assumes "\<forall>(s, v) \<in> set current_portfolio. v = 0" and "0 < weekly_budget"
    and "target_allocation \<noteq> []"
  shows "calculate_rebalancing_adjustment current_portfolio target_allocation weekly_budget
     = Inl ZeroDivisionError"
proof -
  obtain symbol r rest where ta: "target_allocation = (symbol, r) # rest"
    using assms(3) by (cases target_allocation) auto
  have "sum_list (map snd current_portfolio) = 0"
    using assms(1) by (rule sum_list_zero_values)
  then show ?thesis
    using assms(2) ta by (simp add: calculate_rebalancing_adjustment_def Let_def)
qed

text \<open>
  C4. With all holdings at 0 (or no holdings at all) and a positive weekly budget,
  \<^verbatim>\<open>calculate_rebalancing_adjustment\<close> does not skip the correction logic: the guard
  \<^verbatim>\<open>total_portfolio_value > 0\<close> holds because the budget is included, and the division by
  \<^verbatim>\<open>total_portfolio_value - weekly_budget\<close>, which is 0, raises \<^verbatim>\<open>ZeroDivisionError\<close>
  (\<open>zero_portfolio_raises\<close> for every such input with a non-empty target table).
\<close>

theorem rebalancing_zero_holdings_raises:
  "calculate_rebalancing_adjustment [(''QQQ'', 0), (''BTC'', 0)] [(''QQQ'', 0.6), (''BTC'', 0.4)] 1000
     = Inl ZeroDivisionError
   \<and> calculate_rebalancing_adjustment [] [(''QQQ'', 0.6), (''BTC'', 0.4)] 1000
     = Inl ZeroDivisionError"
  by (simp add: calculate_rebalancing_adjustment_def Let_def)

section \<open>Crash detection and the history lookup\<close>

lemma detect_loop_keys:
  "s \<in> fst ` set (detect_loop cfg history_manager cps opps) \<Longrightarrow>
     s \<in> fst ` set opps \<or> (\<exists>cur. (s, cur) \<in> set cps \<and> crash_entry cfg history_manager s cur \<noteq> None)"
proof (induction cps arbitrary: opps)
  case Nil
  then show ?case by simp
next
  case (Cons a cps)
  obtain symbol cur where a: "a = (symbol, cur)" by (cases a)
  show ?case
  proof (cases "crash_entry cfg history_manager symbol cur")
    case None
    with Cons.prems a have "s \<in> fst ` set (detect_loop cfg history_manager cps opps)" by simp
    from Cons.IH [OF this] show ?thesis by auto
  next
    case (Some opp)
    with Cons.prems a
    have "s \<in> fst ` set (detect_loop cfg history_manager cps (AList.update symbol opp opps))"
      by simp
    from Cons.IH [OF this] show ?thesis using a Some by (auto simp: AList.dom_update)
  qed
qed

lemma detect_loop_entries:
  "(s, opp) \<in> set (detect_loop cfg history_manager cps opps) \<Longrightarrow>
     (s, opp) \<in> set opps \<or> (\<exists>cur. (s, cur) \<in> set cps \<and> crash_entry cfg history_manager s cur = Some opp)"
proof (induction cps arbitrary: opps)
  case Nil
  then show ?case by simp
next
  case (Cons a cps)
  obtain symbol cur where a: "a = (symbol, cur)" by (cases a)
  show ?case
  proof (cases "crash_entry cfg history_manager symbol cur")
    case None
    with Cons.prems a have "(s, opp) \<in> set (detect_loop cfg history_manager cps opps)" by simp
    from Cons.IH [OF this] show ?thesis by auto
  next
    case (Some opp')
    with Cons.prems a
    have "(s, opp) \<in> set (detect_loop cfg history_manager cps (AList.update symbol opp' opps))"
      by simp
    from Cons.IH [OF this] show ?thesis using a Some by (auto dest: set_update_cases)
  qed
qed

lemma crash_entry_Raises:
  "history_manager symbol = Raises \<Longrightarrow> crash_entry cfg history_manager symbol cur = None"
  by (simp add: crash_entry_def get_average_price_def)

lemma crash_entry_base_amount:
  "crash_entry cfg history_manager symbol cur = Some opp \<Longrightarrow>
     base_amount opp = get_weekly_budget cfg symbol * get_base_allocation cfg symbol"
  by (auto simp: crash_entry_def Let_def split: option.splits if_splits prod.splits)

lemma detect_loop_lookup:
  "distinct (map fst cps) \<Longrightarrow>
     map_of (detect_loop cfg history_manager cps opps) s =
       (case map_of cps s of
          None \<Rightarrow> map_of opps s
        | Some cur \<Rightarrow>
            (case crash_entry cfg history_manager s cur of
               None \<Rightarrow> map_of opps s
             | Some opp \<Rightarrow> Some opp))"
proof (induction cps arbitrary: opps)
  case Nil
  then show ?case by simp
next
  case (Cons a cps)
  obtain symbol cur where a: "a = (symbol, cur)" by (cases a)
  from Cons.prems a have fresh: "map_of cps symbol = None" and dist: "distinct (map fst cps)"
    by (auto simp: map_of_eq_None_iff)
  show ?case
  proof (cases "crash_entry cfg history_manager symbol cur")
    case None
    then show ?thesis using Cons.IH [OF dist, of opps] a fresh by auto
  next
    case (Some opp)
    then show ?thesis
      using Cons.IH [OF dist, of "AList.update symbol opp opps"] a fresh
      by (auto simp: AList.update_conv' split: option.splits)
  qed
qed

lemma fallback_drop: "0 < cur \<Longrightarrow> (cur * 1.15 - cur) / (cur * 1.15) = (3 / 23 :: real)"
  by (simp add: field_simps)

lemma crash_entry_fallback:
  assumes avg: "get_average_price symbol cur history_manager
      (if symbol \<in> set [''QQQ'', ''VOO'', ''GLDM'']
       then stock_lookback_days (crash_config cfg)
       else crypto_lookback_days (crash_config cfg)) = Some (cur * 1.15)"
    and pos: "0 < cur"
  shows "crash_entry cfg history_manager symbol cur =
     (case determine_crash_level cfg (3 / 23) of
        (level, mult) \<Rightarrow>
          if level > 0
          then Some \<lparr>current_price = cur, avg_price = cur * 1.15,
                     drop_percent = 3 / 23 * 100, crash_level = level, multiplier = mult,
                     base_amount = get_weekly_budget cfg symbol * get_base_allocation cfg symbol,
                     suggested_amount =
                       get_weekly_budget cfg symbol * get_base_allocation cfg symbol * mult\<rparr>
          else None)"
proof -
  have "0 < cur * 1.15" using pos by simp
  then show ?thesis
    using avg fallback_drop [OF pos]
    by (simp add: crash_entry_def Let_def split: prod.splits)
qed


lemmas crash_defs = detect_crash_opportunities_def crash_entry_def get_average_price_def
  determine_crash_level_def get_base_allocation_def get_weekly_budget_def Let_def

lemma btc_opportunity_computed:
  "detect_crash_opportunities example_cfg [(''BTC'', 45000)] no_history
     = [(''BTC'', btc_opportunity)]"
  by (simp add: crash_defs example_cfg_def btc_opportunity_def no_history_def)

text \<open>
  C5, as stated, fails for a lookup that raises: \<^verbatim>\<open>_get_average_price\<close> catches the exception
  and returns \<^verbatim>\<open>None\<close>, and \<^verbatim>\<open>detect_crash_opportunities\<close> then skips the symbol. BTC at
  45000 is a tier-1 opportunity against the synthetic peak 51750 when the lookup returns
  no data, and is absent from the result when the lookup raises.
\<close>

theorem history_error_drops_symbol:
  "get_average_price ''BTC'' 45000 failing_history (crypto_lookback_days (crash_config example_cfg)) = None
   \<and> detect_crash_opportunities example_cfg [(''BTC'', 45000)] failing_history = []
   \<and> detect_crash_opportunities example_cfg [(''BTC'', 45000)] no_history
       = [(''BTC'', btc_opportunity)]
   \<and> avg_price btc_opportunity = 45000 * 1.15"
  using btc_opportunity_computed
  by (simp add: crash_defs btc_opportunity_def failing_history_def)

text \<open>
  C5, amended. If the history lookup returns no data (\<^verbatim>\<open>None\<close>, or an average cost that
  is not positive), the average price is \<open>current_price * 1.15\<close>; for a positive current
  price the symbol is then evaluated with that average price, a drop of 3/23 (about 13%)
  and the tier of that drop, and it is reported with these values when the tier is above
  0. If the lookup raises, the exception does not propagate, the average price is
  \<^verbatim>\<open>None\<close> and the symbol is left out of the result.
\<close>

theorem history_fallback:
  "(history_manager symbol = Returns None
      \<or> (\<exists>c. history_manager symbol = Returns (Some c) \<and> c \<le> 0) \<longrightarrow>
      get_average_price symbol cur history_manager days = Some (cur * 1.15)
      \<and> (0 < cur \<longrightarrow>
           crash_entry cfg history_manager symbol cur =
             (case determine_crash_level cfg (3 / 23) of
                (level, mult) \<Rightarrow>
                  if level > 0
                  then Some \<lparr>current_price = cur, avg_price = cur * 1.15,
                             drop_percent = 3 / 23 * 100, crash_level = level,
                             multiplier = mult,
                             base_amount =
                               get_weekly_budget cfg symbol * get_base_allocation cfg symbol,
                             suggested_amount =
                               get_weekly_budget cfg symbol * get_base_allocation cfg symbol
                                 * mult\<rparr>
                  else None)
           \<and> (distinct (map fst current_prices) \<and> (symbol, cur) \<in> set current_prices \<longrightarrow>
                map_of (detect_crash_opportunities cfg current_prices history_manager) symbol
                  = crash_entry cfg history_manager symbol cur)))
   \<and> (history_manager symbol = Raises \<longrightarrow>
      get_average_price symbol cur history_manager days = None
      \<and> symbol \<notin> fst ` set (detect_crash_opportunities cfg current_prices history_manager))"
proof (intro conjI impI)
  assume h: "history_manager symbol = Returns None
      \<or> (\<exists>c. history_manager symbol = Returns (Some c) \<and> c \<le> 0)"
  then show "get_average_price symbol cur history_manager days = Some (cur * 1.15)"
    by (auto simp: get_average_price_def)
  assume pos: "0 < cur"
  have "get_average_price symbol cur history_manager
      (if symbol \<in> set [''QQQ'', ''VOO'', ''GLDM'']
       then stock_lookback_days (crash_config cfg)
       else crypto_lookback_days (crash_config cfg)) = Some (cur * 1.15)"
    using h by (auto simp: get_average_price_def)
  then show "crash_entry cfg history_manager symbol cur =
             (case determine_crash_level cfg (3 / 23) of
                (level, mult) \<Rightarrow>
                  if level > 0
                  then Some \<lparr>current_price = cur, avg_price = cur * 1.15,
                             drop_percent = 3 / 23 * 100, crash_level = level,
                             multiplier = mult,
                             base_amount =
                               get_weekly_budget cfg symbol * get_base_allocation cfg symbol,
                             suggested_amount =
                               get_weekly_budget cfg symbol * get_base_allocation cfg symbol
                                 * mult\<rparr>
                  else None)"
    using pos by (rule crash_entry_fallback)
  assume "distinct (map fst current_prices) \<and> (symbol, cur) \<in> set current_prices"
  then have dist: "distinct (map fst current_prices)"
    and look: "map_of current_prices symbol = Some cur" by simp_all
  show "map_of (detect_crash_opportunities cfg current_prices history_manager) symbol
      = crash_entry cfg history_manager symbol cur"
    using detect_loop_lookup [OF dist, of cfg history_manager "[]" symbol] look
    by (simp add: detect_crash_opportunities_def split: option.splits)
next
  assume h: "history_manager symbol = Raises"
  then show "get_average_price symbol cur history_manager days = None"
    by (simp add: get_average_price_def)
  show "symbol \<notin> fst ` set (detect_crash_opportunities cfg current_prices history_manager)"
  proof
    assume "symbol \<in> fst ` set (detect_crash_opportunities cfg current_prices history_manager)"
    then have "symbol \<in> fst ` set (detect_loop cfg history_manager current_prices [])"
      by (simp add: detect_crash_opportunities_def)
    from detect_loop_keys [OF this] obtain cur' where
      "crash_entry cfg history_manager symbol cur' \<noteq> None" by auto
    moreover have "crash_entry cfg history_manager symbol cur' = None"
      using h by (rule crash_entry_Raises)
    ultimately show False by simp
  qed
qed

theorem history_fallback_witness:
  "no_history ''BTC'' = Returns None
   \<and> get_average_price ''BTC'' 45000 no_history 7 = Some (45000 * 1.15)
   \<and> (0::real) < 45000
   \<and> distinct (map fst [(''BTC'', 45000::real)])
   \<and> crash_entry example_cfg no_history ''BTC'' 45000 = Some btc_opportunity
   \<and> map_of (detect_crash_opportunities example_cfg [(''BTC'', 45000)] no_history) ''BTC''
       = Some btc_opportunity
   \<and> avg_price btc_opportunity = 45000 * 1.15
   \<and> drop_percent btc_opportunity = 3 / 23 * 100
   \<and> crash_level btc_opportunity = 1
   \<and> failing_history ''BTC'' = Raises
   \<and> get_average_price ''BTC'' 45000 failing_history 7 = None
   \<and> ''BTC'' \<notin> fst ` set (detect_crash_opportunities example_cfg [(''BTC'', 45000)] failing_history)"
proof -
  note w1 = history_fallback [where history_manager = no_history and symbol = "''BTC''"
      and cur = 45000 and cfg = example_cfg and days = 7
      and current_prices = "[(''BTC'', 45000)]"]
  note w2 = history_fallback [where history_manager = failing_history and symbol = "''BTC''"
      and cur = 45000 and cfg = example_cfg and days = 7
      and current_prices = "[(''BTC'', 45000)]"]
  have n: "no_history ''BTC'' = Returns None" by (simp add: no_history_def)
  then have p1: "no_history ''BTC'' = Returns None
      \<or> (\<exists>c. no_history ''BTC'' = Returns (Some c) \<and> c \<le> 0)" by simp
  note c1 = conjunct1 [OF w1, THEN mp, OF p1]
  have pos: "(0::real) < 45000" by simp
  note e = conjunct2 [OF c1, THEN mp, OF pos]
  have entry: "crash_entry example_cfg no_history ''BTC'' 45000 = Some btc_opportunity"
    using conjunct1 [OF e]
    by (simp add: determine_crash_level_def get_weekly_budget_def get_base_allocation_def
        example_cfg_def btc_opportunity_def)
  have dist: "distinct (map fst [(''BTC'', 45000::real)])" by simp
  have "distinct (map fst [(''BTC'', 45000::real)])
      \<and> (''BTC'', 45000) \<in> set [(''BTC'', 45000::real)]" by simp
  with conjunct2 [OF e]
  have "map_of (detect_crash_opportunities example_cfg [(''BTC'', 45000)] no_history) ''BTC''
      = crash_entry example_cfg no_history ''BTC'' 45000" by (rule mp)
  then have found: "map_of (detect_crash_opportunities example_cfg [(''BTC'', 45000)] no_history)
      ''BTC'' = Some btc_opportunity" by (simp only: entry)
  have f: "failing_history ''BTC'' = Raises" by (simp add: failing_history_def)
  note c2 = conjunct2 [OF w2, THEN mp, OF f]
  show ?thesis
  proof (intro conjI)
    show "no_history ''BTC'' = Returns None" by (rule n)
    show "get_average_price ''BTC'' 45000 no_history 7 = Some (45000 * 1.15)"
      by (rule conjunct1 [OF c1])
    show "(0::real) < 45000" by (rule pos)
    show "distinct (map fst [(''BTC'', 45000::real)])" by (rule dist)
    show "crash_entry example_cfg no_history ''BTC'' 45000 = Some btc_opportunity" by (rule entry)
    show "map_of (detect_crash_opportunities example_cfg [(''BTC'', 45000)] no_history) ''BTC''
       = Some btc_opportunity" by (rule found)
    show "avg_price btc_opportunity = 45000 * 1.15" by (simp add: btc_opportunity_def)
    show "drop_percent btc_opportunity = 3 / 23 * 100" by (simp add: btc_opportunity_def)
    show "crash_level btc_opportunity = 1" by (simp add: btc_opportunity_def)
    show "failing_history ''BTC'' = Raises" by (rule f)
    show "get_average_price ''BTC'' 45000 failing_history 7 = None" by (rule conjunct1 [OF c2])
    show "''BTC'' \<notin> fst ` set (detect_crash_opportunities example_cfg [(''BTC'', 45000)] failing_history)"
      by (rule conjunct2 [OF c2])
  qed
qed

section \<open>The weekly budget of a divisible asset\<close>

text \<open>
  C6, as stated, fails: \<^verbatim>\<open>detect_crash_opportunities\<close> and \<^verbatim>\<open>_get_weekly_budget\<close> take no
  conversion price; the budget of a crypto symbol is \<open>weekly_tao_limit * 500\<close>. With a
  TAO limit of 2 the base amount of BTC is 2 * 500 * 0.16 = 160 whatever the TAO price
  of the day, and not 2 * 700 * 0.16 when that price is 700.
\<close>

theorem crypto_budget_ignores_conversion_price:
  "get_weekly_budget example_cfg ''BTC'' = weekly_tao_limit (limits example_cfg) * 500
   \<and> get_weekly_budget example_cfg ''BTC'' \<noteq> weekly_tao_limit (limits example_cfg) * 700
   \<and> detect_crash_opportunities example_cfg [(''BTC'', 45000)] no_history
       = [(''BTC'', btc_opportunity)]
   \<and> base_amount btc_opportunity = weekly_tao_limit (limits example_cfg) * 500 * get_base_allocation example_cfg ''BTC''
   \<and> base_amount btc_opportunity \<noteq> weekly_tao_limit (limits example_cfg) * 700 * get_base_allocation example_cfg ''BTC''"
  using btc_opportunity_computed
  by (simp add: get_weekly_budget_def get_base_allocation_def example_cfg_def btc_opportunity_def)

text \<open>
  C6, amended. For every symbol other than QQQ, VOO and GLDM the weekly budget used by
  \<^verbatim>\<open>detect_crash_opportunities\<close> is \<open>weekly_tao_limit * 500\<close>, a fixed TAO price of 500,
  and the base amount of its opportunity is that budget times the symbol's base
  allocation.
\<close>

theorem crypto_weekly_budget_fixed:
  assumes "symbol \<notin> set [''QQQ'', ''VOO'', ''GLDM'']"
  shows "get_weekly_budget cfg symbol = weekly_tao_limit (limits cfg) * 500
       \<and> (\<forall>(s, opp) \<in> set (detect_crash_opportunities cfg current_prices history_manager).
            s = symbol \<longrightarrow>
            base_amount opp = weekly_tao_limit (limits cfg) * 500 * get_base_allocation cfg symbol)"
proof
  show b: "get_weekly_budget cfg symbol = weekly_tao_limit (limits cfg) * 500"
    using assms by (simp add: get_weekly_budget_def)
  show "\<forall>(s, opp) \<in> set (detect_crash_opportunities cfg current_prices history_manager).
            s = symbol \<longrightarrow>
            base_amount opp = weekly_tao_limit (limits cfg) * 500 * get_base_allocation cfg symbol"
  proof (clarify)
    fix opp
    assume "(symbol, opp) \<in> set (detect_crash_opportunities cfg current_prices history_manager)"
    then have "(symbol, opp) \<in> set (detect_loop cfg history_manager current_prices [])"
      by (simp add: detect_crash_opportunities_def)
    from detect_loop_entries [OF this] obtain cur where
      "crash_entry cfg history_manager symbol cur = Some opp" by auto
    from crash_entry_base_amount [OF this] show
      "base_amount opp = weekly_tao_limit (limits cfg) * 500 * get_base_allocation cfg symbol"
      using b by simp
  qed
qed


theorem crypto_weekly_budget_fixed_witness:
  "''BTC'' \<notin> set [''QQQ'', ''VOO'', ''GLDM'']
   \<and> get_weekly_budget example_cfg ''BTC'' = weekly_tao_limit (limits example_cfg) * 500
   \<and> (''BTC'', btc_opportunity)
        \<in> set (detect_crash_opportunities example_cfg [(''BTC'', 45000)] no_history)
   \<and> base_amount btc_opportunity
        = weekly_tao_limit (limits example_cfg) * 500 * get_base_allocation example_cfg ''BTC''"
proof -
  have h: "''BTC'' \<notin> set [''QQQ'', ''VOO'', ''GLDM'']" by simp
  note w = crypto_weekly_budget_fixed [OF h, where cfg = example_cfg
      and current_prices = "[(''BTC'', 45000)]" and history_manager = no_history]
  have m: "(''BTC'', btc_opportunity)
        \<in> set (detect_crash_opportunities example_cfg [(''BTC'', 45000)] no_history)"
    by (simp add: btc_opportunity_computed)
  have "case (''BTC'', btc_opportunity) of (s, opp) \<Rightarrow> s = ''BTC'' \<longrightarrow>
      base_amount opp = weekly_tao_limit (limits example_cfg) * 500 * get_base_allocation example_cfg ''BTC''"
    using conjunct2 [OF w] m by (rule bspec)
  then have b: "base_amount btc_opportunity
        = weekly_tao_limit (limits example_cfg) * 500 * get_base_allocation example_cfg ''BTC''"
    by simp
  show ?thesis
  proof (intro conjI)
    show "''BTC'' \<notin> set [''QQQ'', ''VOO'', ''GLDM'']" by (rule h)
    show "get_weekly_budget example_cfg ''BTC'' = weekly_tao_limit (limits example_cfg) * 500"
      by (rule conjunct1 [OF w])
    show "(''BTC'', btc_opportunity)
        \<in> set (detect_crash_opportunities example_cfg [(''BTC'', 45000)] no_history)" by (rule m)
    show "base_amount btc_opportunity
        = weekly_tao_limit (limits example_cfg) * 500 * get_base_allocation example_cfg ''BTC''"
      by (rule b)
  qed
qed


end
